theory Spec2Isabelle
  imports Complex_Main
begin

section \<open>Values of the host geometry library\<close>

text \<open>
  The plugin works on the integer geometry classes of the host library: points, edges
  and boxes with integer coordinates. Python reads the coordinates as unbounded
  integers; the library stores them in 32 bits, which \<open>coord_ok\<close> records.
\<close>

datatype Point = Point (px: int) (py: int)

datatype Edge = Edge (p1: Point) (p2: Point)

datatype Box = MkBox (b_left: int) (b_bottom: int) (b_right: int) (b_top: int)




definition x1 :: "Edge \<Rightarrow> int" where "x1 e = px (p1 e)"
definition y1 :: "Edge \<Rightarrow> int" where "y1 e = py (p1 e)"
definition x2 :: "Edge \<Rightarrow> int" where "x2 e = px (p2 e)"
definition y2 :: "Edge \<Rightarrow> int" where "y2 e = py (p2 e)"

definition dx :: "Edge \<Rightarrow> int" where "dx e = x2 e - x1 e"
definition dy :: "Edge \<Rightarrow> int" where "dy e = y2 e - y1 e"

text \<open>\<open>pya.Box(x1, y1, x2, y2)\<close>: the constructor orders the coordinates.\<close>

definition Box :: "int \<Rightarrow> int \<Rightarrow> int \<Rightarrow> int \<Rightarrow> Box" where
  "Box xa ya xb yb = MkBox (min xa xb) (min ya yb) (max xa xb) (max ya yb)"

text \<open>\<open>Box.contains(point)\<close>: the box is closed, its contour belongs to it.\<close>

definition contains :: "Box \<Rightarrow> Point \<Rightarrow> bool" where
  "contains b p = (b_left b \<le> px p \<and> px p \<le> b_right b \<and> b_bottom b \<le> py p \<and> py p \<le> b_top b)"

text \<open>\<open>Box.center()\<close>, in integer arithmetic.\<close>

definition center :: "Box \<Rightarrow> Point" where
  "center b = Point (b_left b + (b_right b - b_left b) div 2) (b_bottom b + (b_top b - b_bottom b) div 2)"

text \<open>
  The four edges of a box, as \<open>pya.Edges(box)\<close> and \<open>pya.Polygon(box).each_edge()\<close>
  enumerate them: around the contour, starting at the lower left corner.
\<close>

definition box_edges :: "Box \<Rightarrow> Edge list" where
  "box_edges b =
     [Edge (Point (b_left b) (b_bottom b)) (Point (b_left b) (b_top b)),
      Edge (Point (b_left b) (b_top b)) (Point (b_right b) (b_top b)),
      Edge (Point (b_right b) (b_top b)) (Point (b_right b) (b_bottom b)),
      Edge (Point (b_right b) (b_bottom b)) (Point (b_left b) (b_bottom b))]"

text \<open>
  \<open>Point.distance(other)\<close>: the Euclidean distance. The library returns it as a double;
  the model keeps the exact real number.
\<close>

definition distance :: "Point \<Rightarrow> Point \<Rightarrow> real" where
  "distance p q = sqrt (of_int ((px p - px q)\<^sup>2 + (py p - py q)\<^sup>2))"

text \<open>\<open>Edge.is_parallel(other)\<close>: the cross product of the two directions vanishes.\<close>

definition is_parallel :: "Edge \<Rightarrow> Edge \<Rightarrow> bool" where
  "is_parallel e f = (dx e * dy f = dy e * dx f)"

text \<open>
  A Python float handed to an integer parameter of the library is cut towards zero.
  The floats of \<open>find_nearest_edge_point\<close> are halves of integers, exact as rationals.
\<close>

definition float_to_coord :: "rat \<Rightarrow> int" where
  "float_to_coord q = (if 0 \<le> q then \<lfloor>q\<rfloor> else \<lceil>q\<rceil>)"

text \<open>
  Two operations on edges are taken as parameters of the finder:
  \<open>Edge.clipped(box)\<close>, the part of the edge inside the box or \<open>None\<close>, and
  \<open>Edge.distance_abs(point)\<close>. Both round in floating point inside the library.
\<close>

record edge_ops =
  clipped :: "Edge \<Rightarrow> Box \<Rightarrow> Edge option"
  distance_abs :: "Edge \<Rightarrow> Point \<Rightarrow> nat"

section \<open>Objects of the layout and what the view reports\<close>

datatype Instance = Instance nat

datatype Shape = Shape nat

datatype InstElement = InstElement (inst: Instance)

text \<open>What a field or list of the plugin may hold: an instance, a shape or a box.\<close>

datatype Object = InstanceObj Instance | ShapeObj Shape | BoxObj Box

datatype error = AttributeError | TypeError | ZeroDivisionError

record AlignToolSelection =
  location :: Point
  search_box :: Box
  edge :: "Edge option"
  path :: "InstElement list"
  shape :: "Object option"
  bbox_of_instance :: "Instance option"
  layer :: "int option"
  snap_point :: "Point option"

record LayerRef =
  visible :: bool
  valid :: bool
  layer_index :: int

text \<open>
  One position of the recursive instance iterator: the instance, whether its cell is
  hidden in the view, \<open>inst.bbox().transformed(iter.trans())\<close> and \<open>iter.path()\<close>.
\<close>

record InstPosition =
  current_inst :: Instance
  cell_hidden :: bool
  inst_bbox_from_top :: Box
  inst_path :: "InstElement list"

text \<open>
  A polygon already transformed by \<open>iter.itrans()\<close>: the edges \<open>each_edge()\<close>
  enumerates and its bounding box.
\<close>

record Polygon =
  each_edge :: "Edge list"
  bbox :: Box

text \<open>
  One position of the recursive shape iterator: the shape, its polygon (\<open>None\<close> for a
  shape that has none) and \<open>iter.path()\<close>.
\<close>

record ShapePosition =
  current_shape :: Shape
  polygon :: "Polygon option"
  shape_path :: "InstElement list"

text \<open>
  A ruler: whether its outline is \<open>OutlineBox\<close>, its box and its points, both
  already converted to integer coordinates.
\<close>

record Annotation =
  outline_is_box :: bool
  ruler_box :: Box
  ruler_points :: "Point list"

text \<open>
  What \<open>find_selection\<close> asks of the view and the cell view. The two iterators take
  the search box (the shape iterator also the layer) and the depth range.
\<close>

record LayoutView =
  min_hier_levels :: int
  max_hier_levels :: int
  top_cell_hidden :: bool
  each_layer :: "LayerRef list"
  begin_instances_rec_overlapping :: "Box \<Rightarrow> int \<Rightarrow> int \<Rightarrow> InstPosition list"
  begin_shapes_rec_overlapping :: "int \<Rightarrow> Box \<Rightarrow> int \<Rightarrow> int \<Rightarrow> ShapePosition list"
  each_annotation :: "Annotation list"

section \<open>The feature finder\<close>

subsection \<open>\<open>find_nearest_edge_point\<close>\<close>

definition halfway :: "int \<Rightarrow> int \<Rightarrow> rat" where
  "halfway a b = (if a < b then of_int a + of_int (b - a) / 2 else of_int b + of_int (a - b) / 2)"

definition edge_center :: "Edge \<Rightarrow> Point" where
  "edge_center e =
     Point (float_to_coord (halfway (x1 e) (x2 e))) (float_to_coord (halfway (y1 e) (y2 e)))"

definition edge_points :: "Edge \<Rightarrow> Point list" where
  "edge_points e = [edge_center e, p1 e, p2 e]"

text \<open>
  The loop over \<open>zip(points, distances)\<close>: the state is the pair of
  \<open>nearest_point\<close> and \<open>nearest_distance\<close>.
\<close>

fun nearest_loop :: "(Point \<times> real) list \<Rightarrow> Point option \<times> real \<Rightarrow> Point option \<times> real" where
  "nearest_loop [] st = st"
| "nearest_loop ((point, d) # rest) (nearest_point, nearest_distance) =
     (if d < nearest_distance then nearest_loop rest (Some point, d)
      else nearest_loop rest (nearest_point, nearest_distance))"

definition find_nearest_edge_point :: "Point \<Rightarrow> Edge \<Rightarrow> Point option" where
  "find_nearest_edge_point loc e =
     (let points = edge_points e;
          distances = map (\<lambda>p. \<bar>distance p loc\<bar>) points
      in fst (nearest_loop (zip points distances) (None, 9999999999)))"

subsection \<open>\<open>visible_layer_indexes\<close>\<close>

definition visible_layer_indexes :: "LayoutView \<Rightarrow> int list" where
  "visible_layer_indexes view =
     map layer_index
       (filter (\<lambda>lref. visible lref \<and> valid lref \<and> layer_index lref \<noteq> - 1) (each_layer view))"

subsection \<open>\<open>consider_edge_selection\<close>\<close>

text \<open>
  The closure of \<open>find_selection\<close> that keeps the best candidate. Its captured
  variables are arguments here, and the new value of \<open>nearest\<close> is returned. Calling a
  method on \<open>None\<close> raises \<open>AttributeError\<close>.
\<close>

definition consider_edge_selection ::
  "edge_ops \<Rightarrow> Box \<Rightarrow> Point \<Rightarrow> AlignToolSelection \<Rightarrow> AlignToolSelection \<Rightarrow> error + AlignToolSelection" where
  "consider_edge_selection L sbox loc nearest selection =
     (case edge selection of
        None \<Rightarrow> Inl AttributeError
      | Some e \<Rightarrow>
         (case clipped L e sbox of
            None \<Rightarrow> Inr nearest
          | Some intersection \<Rightarrow>
             (case edge nearest of
                None \<Rightarrow> Inr selection
              | Some ne \<Rightarrow>
                 (case clipped L ne sbox of
                    None \<Rightarrow> Inl AttributeError
                  | Some old_intersection \<Rightarrow>
                     (let dist_old = distance_abs L old_intersection loc;
                          dist_new = distance_abs L intersection loc
                      in if dist_new < dist_old then Inr selection else Inr nearest)))))"

subsection \<open>Loops\<close>

text \<open>A \<open>for\<close> loop whose body may raise.\<close>

fun for_each :: "('a \<Rightarrow> 's \<Rightarrow> error + 's) \<Rightarrow> 'a list \<Rightarrow> 's \<Rightarrow> error + 's" where
  "for_each body [] s = Inr s"
| "for_each body (a # as) s =
     (case body a s of Inl err \<Rightarrow> Inl err | Inr s' \<Rightarrow> for_each body as s')"

definition iteration_limit :: nat where
  "iteration_limit = 1000"

text \<open>
  The loop over a recursive iterator, with its counter:
  \<^verbatim>\<open>while not iter.at_end(): body; iter.next(); i += 1; if i >= iteration_limit: break\<close>.
  The iterator is the list of the positions it has still to visit.
\<close>

fun iter_loop :: "('a \<Rightarrow> 's \<Rightarrow> error + 's) \<Rightarrow> 'a list \<Rightarrow> nat \<Rightarrow> 's \<Rightarrow> error + 's" where
  "iter_loop body [] i s = Inr s"
| "iter_loop body (a # iter) i s =
     (case body a s of
        Inl err \<Rightarrow> Inl err
      | Inr s' \<Rightarrow> (if i + 1 \<ge> iteration_limit then Inr s' else iter_loop body iter (i + 1) s'))"

subsection \<open>The passes of \<open>find_selection\<close>\<close>

definition instance_body ::
  "edge_ops \<Rightarrow> Box \<Rightarrow> Point \<Rightarrow> InstPosition \<Rightarrow> AlignToolSelection \<Rightarrow> error + AlignToolSelection" where
  "instance_body L sbox loc pos nearest =
     (if \<not> cell_hidden pos then
        (case for_each
                (\<lambda>e n. if clipped L e sbox \<noteq> None then
                          consider_edge_selection L sbox loc n
                            \<lparr>location = loc, search_box = sbox, edge = Some e,
                             path = inst_path pos, shape = Some (BoxObj (inst_bbox_from_top pos)),
                             bbox_of_instance = Some (current_inst pos), layer = None,
                             snap_point = None\<rparr>
                        else Inr n)
                (box_edges (inst_bbox_from_top pos)) nearest of
           Inl err \<Rightarrow> Inl err
         | Inr n \<Rightarrow>
            (let midpoint = center (inst_bbox_from_top pos);
                 midpoint_dummy_edge = Edge midpoint midpoint
             in consider_edge_selection L sbox loc n
                  \<lparr>location = loc, search_box = sbox, edge = Some midpoint_dummy_edge,
                   path = inst_path pos, shape = Some (BoxObj (inst_bbox_from_top pos)),
                   bbox_of_instance = Some (current_inst pos), layer = None,
                   snap_point = Some midpoint\<rparr>))
      else Inr nearest)"

definition instance_pass ::
  "edge_ops \<Rightarrow> LayoutView \<Rightarrow> Box \<Rightarrow> Point \<Rightarrow> AlignToolSelection \<Rightarrow> error + AlignToolSelection" where
  "instance_pass L view sbox loc nearest =
     (if max_hier_levels view \<ge> 1 then
        iter_loop (instance_body L sbox loc)
          (begin_instances_rec_overlapping view sbox
             (max (min_hier_levels view - 1) 0) (max (max_hier_levels view - 1) 0))
          0 nearest
      else Inr nearest)"

definition shape_body ::
  "edge_ops \<Rightarrow> Box \<Rightarrow> Point \<Rightarrow> int \<Rightarrow> ShapePosition \<Rightarrow> AlignToolSelection \<Rightarrow> error + AlignToolSelection" where
  "shape_body L sbox loc lyr pos nearest =
     (case polygon pos of
        None \<Rightarrow> Inr nearest
      | Some p \<Rightarrow>
         (case for_each
                 (\<lambda>e n. consider_edge_selection L sbox loc n
                           \<lparr>location = loc, search_box = sbox, edge = Some e,
                            path = shape_path pos, shape = Some (ShapeObj (current_shape pos)),
                            bbox_of_instance = None, layer = Some lyr,
                            snap_point = None\<rparr>)
                 (each_edge p) nearest of
            Inl err \<Rightarrow> Inl err
          | Inr n \<Rightarrow>
             (let midpoint = center (bbox p);
                  midpoint_dummy_edge = Edge midpoint midpoint
              in consider_edge_selection L sbox loc n
                   \<lparr>location = loc, search_box = sbox, edge = Some midpoint_dummy_edge,
                    path = shape_path pos, shape = Some (ShapeObj (current_shape pos)),
                    bbox_of_instance = None, layer = None,
                    snap_point = Some midpoint\<rparr>)))"

definition shape_pass ::
  "edge_ops \<Rightarrow> LayoutView \<Rightarrow> Box \<Rightarrow> Point \<Rightarrow> AlignToolSelection \<Rightarrow> error + AlignToolSelection" where
  "shape_pass L view sbox loc nearest =
     (if max_hier_levels view \<ge> 1 then
        for_each
          (\<lambda>lyr n. iter_loop (shape_body L sbox loc lyr)
                     (begin_shapes_rec_overlapping view lyr sbox
                        (max (min_hier_levels view - 1) 0) (max (max_hier_levels view - 1) 0))
                     0 n)
          (visible_layer_indexes view) nearest
      else Inr nearest)"

definition ruler_body ::
  "edge_ops \<Rightarrow> Box \<Rightarrow> Point \<Rightarrow> Annotation \<Rightarrow> AlignToolSelection \<Rightarrow> error + AlignToolSelection" where
  "ruler_body L sbox loc a nearest =
     (let points = (if outline_is_box a then [] else ruler_points a);
          edges = (if outline_is_box a then box_edges (ruler_box a) else [])
      in case for_each
                (\<lambda>e n. if clipped L e sbox \<noteq> None then
                          consider_edge_selection L sbox loc n
                            \<lparr>location = loc, search_box = sbox, edge = Some e,
                             path = [], shape = None, bbox_of_instance = None, layer = None,
                             snap_point = None\<rparr>
                        else Inr n)
                edges nearest of
           Inl err \<Rightarrow> Inl err
         | Inr n1 \<Rightarrow>
            for_each
              (\<lambda>p n. if contains sbox p then
                        consider_edge_selection L sbox loc n
                          \<lparr>location = loc, search_box = sbox, edge = Some (Edge p p),
                           path = [], shape = None, bbox_of_instance = None, layer = None,
                           snap_point = Some p\<rparr>
                      else Inr n)
              points n1)"

definition ruler_pass ::
  "edge_ops \<Rightarrow> LayoutView \<Rightarrow> Box \<Rightarrow> Point \<Rightarrow> bool \<Rightarrow> AlignToolSelection \<Rightarrow> error + AlignToolSelection" where
  "ruler_pass L view sbox loc consider_rulers nearest =
     (if consider_rulers then for_each (ruler_body L sbox loc) (each_annotation view) nearest
      else Inr nearest)"

subsection \<open>\<open>find_selection\<close>\<close>

text \<open>The last lines of \<open>find_selection\<close>: the snap point of the best candidate.\<close>

definition finish_selection ::
  "Box \<Rightarrow> Point \<Rightarrow> AlignToolSelection \<Rightarrow> error + AlignToolSelection option" where
  "finish_selection sbox loc nearest =
     (case edge nearest of
        None \<Rightarrow> Inr None
      | Some e \<Rightarrow>
         (case find_nearest_edge_point loc e of
            None \<Rightarrow> Inl TypeError
          | Some nearest_point \<Rightarrow>
             (if contains sbox nearest_point
              then Inr (Some (nearest\<lparr>snap_point := Some nearest_point\<rparr>))
              else Inr (Some nearest))))"

definition no_selection :: "Point \<Rightarrow> Box \<Rightarrow> AlignToolSelection" where
  "no_selection loc sbox =
     \<lparr>location = loc, search_box = sbox, edge = None, path = [], shape = None,
      bbox_of_instance = None, layer = None, snap_point = None\<rparr>"

definition make_search_box :: "Point \<Rightarrow> int \<Rightarrow> Box" where
  "make_search_box loc max_distance =
     Box (px loc - max_distance) (py loc - max_distance)
         (px loc + max_distance) (py loc + max_distance)"

text \<open>
  \<open>find_selection\<close>, from the location already converted to integer coordinates
  by \<open>to_itype\<close> and an integer \<open>max_distance\<close>, as its annotation says.
  \<open>Inr None\<close> is the return value \<open>None\<close>; \<open>Inl\<close> is an exception.
\<close>

definition find_selection ::
  "edge_ops \<Rightarrow> LayoutView \<Rightarrow> Point \<Rightarrow> int \<Rightarrow> bool \<Rightarrow> error + AlignToolSelection option" where
  "find_selection L view loc max_distance consider_rulers =
     (let sbox = make_search_box loc max_distance;
          nearest = no_selection loc sbox
      in if top_cell_hidden view then Inr None
         else
           (case instance_pass L view sbox loc nearest of
              Inl err \<Rightarrow> Inl err
            | Inr n1 \<Rightarrow>
               (case shape_pass L view sbox loc n1 of
                  Inl err \<Rightarrow> Inl err
                | Inr n2 \<Rightarrow>
                   (case ruler_pass L view sbox loc consider_rulers n2 of
                      Inl err \<Rightarrow> Inl err
                    | Inr n3 \<Rightarrow> finish_selection sbox loc n3))))"

section \<open>The alignment resolver\<close>

text \<open>
  What \<open>commit_align\<close> asks of the host, in the order of the calls: the warning dialog,
  a key press sent to the widget of the view, \<open>view.transaction(name)\<close>,
  \<open>view.commit()\<close> and \<open>t.transform(pya.Trans(dx, dy))\<close> on an object \<open>t\<close>.
\<close>

datatype host_call =
    QMessageBox_warning string string
  | SendKeyPress nat
  | Transaction string
  | Commit
  | Transform Object int int

text \<open>\<open>deactivate\<close>: the escape key is sent to the view, which ends the tool.\<close>

definition esc_key :: nat where
  "esc_key = 16777216"

definition deactivate :: "host_call list" where
  "deactivate = [SendKeyPress esc_key]"

text \<open>Python's \<open>round\<close> of a float: to the nearest integer, a half to the even one.\<close>

definition py_round :: "rat \<Rightarrow> int" where
  "py_round q =
     (let f = \<lfloor>q\<rfloor>; r = q - of_int f
      in if r < 1 / 2 then f else if 1 / 2 < r then f + 1 else if even f then f else f + 1)"

text \<open>\<open>round(d / grid_dbu) * grid_dbu\<close>, for a grid that is not zero.\<close>

definition snap_to_grid :: "int \<Rightarrow> int \<Rightarrow> int" where
  "snap_to_grid grid_dbu d = py_round (of_int d / of_int grid_dbu) * grid_dbu"

text \<open>The choice of the objects to move (the first \<open>if\<close> chain of \<open>commit_align\<close>).\<close>

definition transformees_of :: "Object list \<Rightarrow> AlignToolSelection \<Rightarrow> Object option list" where
  "transformees_of pre_selected_objects selection1 =
     (if length pre_selected_objects \<ge> 1 then map Some pre_selected_objects
      else if length (path selection1) = 0 then
        (case bbox_of_instance selection1 of
           None \<Rightarrow> [shape selection1]
         | Some inst1 \<Rightarrow> [Some (InstanceObj inst1)])
      else if length (path selection1) \<ge> 1 then [Some (InstanceObj (inst (path selection1 ! 0)))]
      else [])"

text \<open>
  The offset \<open>(dx, dy)\<close> (the second \<open>if\<close> chain): \<open>Inr (Some (ddx, ddy))\<close>, or \<open>Inr None\<close> where
  the code warns and returns. A selection is a point when its snap point is set.
\<close>

definition align_offset ::
  "AlignToolSelection \<Rightarrow> AlignToolSelection \<Rightarrow> error + (int \<times> int) option" where
  "align_offset selection1 selection2 =
     (case (snap_point selection1, snap_point selection2) of
        (Some sp1, Some sp2) \<Rightarrow> Inr (Some (px sp2 - px sp1, py sp2 - py sp1))
      | (Some sp1, None) \<Rightarrow>
         (case edge selection2 of
            None \<Rightarrow> Inl AttributeError
          | Some edge2 \<Rightarrow>
             (let is_horizontal = (dy edge2 = 0); is_vertical = (dx edge2 = 0)
              in if is_horizontal then Inr (Some (0, py (p1 edge2) - py sp1))
                 else if is_vertical then Inr (Some (px (p1 edge2) - px sp1, 0))
                 else Inr (Some (0, 0))))
      | (None, Some sp2) \<Rightarrow>
         (case edge selection1 of
            None \<Rightarrow> Inl AttributeError
          | Some edge1 \<Rightarrow>
             (let is_horizontal = (dy edge1 = 0); is_vertical = (dx edge1 = 0)
              in if is_horizontal then Inr (Some (0, py sp2 - py (p1 edge1)))
                 else if is_vertical then Inr (Some (px sp2 - px (p1 edge1), 0))
                 else Inr (Some (0, 0))))
      | (None, None) \<Rightarrow>
         (case edge selection1 of
            None \<Rightarrow> Inl AttributeError
          | Some edge1 \<Rightarrow>
             (case edge selection2 of
                None \<Rightarrow> Inl TypeError
              | Some edge2 \<Rightarrow>
                 (if is_parallel edge1 edge2 then
                    (let is_horizontal = (dy edge1 = 0); is_vertical = (dx edge1 = 0)
                     in if is_horizontal then Inr (Some (0, py (p1 edge2) - py (p1 edge1)))
                        else if is_vertical then Inr (Some (px (p1 edge2) - px (p1 edge1), 0))
                        else Inr (Some (0, 0)))
                  else Inr None))))"

text \<open>
  The loop over the transformees inside \<open>try\<close>: the calls made, and the exception
  that ended the loop, if any.
\<close>

fun transform_all :: "Object option list \<Rightarrow> int \<Rightarrow> int \<Rightarrow> host_call list \<times> error option" where
  "transform_all [] sx sy = ([], None)"
| "transform_all (None # ts) sx sy = ([], Some AttributeError)"
| "transform_all (Some t # ts) sx sy =
     (case transform_all ts sx sy of (calls, err) \<Rightarrow> (Transform t sx sy # calls, err))"

text \<open>
  \<open>commit_align\<close>: the calls to the host in order, and the exception that left the
  method, if any. \<open>grid_dbu\<close> is the value of \<open>int(drc_tech_grid_um() / self.dbu)\<close>.
\<close>

definition commit_align ::
  "Object list \<Rightarrow> int \<Rightarrow> AlignToolSelection \<Rightarrow> AlignToolSelection \<Rightarrow> host_call list \<times> error option" where
  "commit_align pre_selected_objects grid_dbu selection1 selection2 =
     (let transformees = transformees_of pre_selected_objects selection1
      in case align_offset selection1 selection2 of
           Inl err \<Rightarrow> ([], Some err)
         | Inr None \<Rightarrow>
            (QMessageBox_warning ''Unsupported use case''
               ''Aligning non-parallel edges is not yet supported.'' # deactivate, None)
         | Inr (Some (ddx, ddy)) \<Rightarrow>
            (if grid_dbu = 0 then ([], Some ZeroDivisionError)
             else
               (let snapped_dx = snap_to_grid grid_dbu ddx;
                    snapped_dy = snap_to_grid grid_dbu ddy
                in case transform_all transformees snapped_dx snapped_dy of
                     (calls, err) \<Rightarrow> (Transaction ''align'' # calls @ Commit # deactivate, err))))"

section \<open>The candidates of a query, in the order of their registration\<close>

text \<open>
  \<open>find_selection\<close> hands every candidate to \<open>consider_edge_selection\<close>. The
  definitions of this section name the candidates themselves: those of one instance,
  of one shape and of one ruler, and the list of all candidates of a query in the order
  the three passes meet them. The properties below show that the loops of
  \<open>find_selection\<close> register exactly this list.
\<close>

definition register :: "edge_ops \<Rightarrow> Box \<Rightarrow> Point \<Rightarrow> AlignToolSelection \<Rightarrow> AlignToolSelection \<Rightarrow> error + AlignToolSelection" where
  "register L sbox loc selection nearest = consider_edge_selection L sbox loc nearest selection"

text \<open>
  An instance that is not hidden gives the edges of its box that the search box clips,
  then the centre of the box as an edge of length zero.
\<close>

definition instance_candidates :: "edge_ops \<Rightarrow> Box \<Rightarrow> Point \<Rightarrow> InstPosition \<Rightarrow> AlignToolSelection list" where
  "instance_candidates L sbox loc pos =
     (if cell_hidden pos then []
      else
        map (\<lambda>e. \<lparr>location = loc, search_box = sbox, edge = Some e,
                  path = inst_path pos, shape = Some (BoxObj (inst_bbox_from_top pos)),
                  bbox_of_instance = Some (current_inst pos), layer = None, snap_point = None\<rparr>)
            (filter (\<lambda>e. clipped L e sbox \<noteq> None) (box_edges (inst_bbox_from_top pos))) @
        [\<lparr>location = loc, search_box = sbox,
          edge = Some (Edge (center (inst_bbox_from_top pos)) (center (inst_bbox_from_top pos))),
          path = inst_path pos, shape = Some (BoxObj (inst_bbox_from_top pos)),
          bbox_of_instance = Some (current_inst pos), layer = None,
          snap_point = Some (center (inst_bbox_from_top pos))\<rparr>])"

text \<open>A shape with a polygon gives every edge of the polygon, then the centre of its box.\<close>

definition shape_candidates :: "Box \<Rightarrow> Point \<Rightarrow> int \<Rightarrow> ShapePosition \<Rightarrow> AlignToolSelection list" where
  "shape_candidates sbox loc lyr pos =
     (case polygon pos of
        None \<Rightarrow> []
      | Some p \<Rightarrow>
         map (\<lambda>e. \<lparr>location = loc, search_box = sbox, edge = Some e,
                   path = shape_path pos, shape = Some (ShapeObj (current_shape pos)),
                   bbox_of_instance = None, layer = Some lyr, snap_point = None\<rparr>)
             (each_edge p) @
         [\<lparr>location = loc, search_box = sbox,
           edge = Some (Edge (center (bbox p)) (center (bbox p))),
           path = shape_path pos, shape = Some (ShapeObj (current_shape pos)),
           bbox_of_instance = None, layer = None, snap_point = Some (center (bbox p))\<rparr>])"

text \<open>
  A ruler with a box outline gives the edges of the box that the search box clips;
  any other ruler gives its points inside the search box, as edges of length zero.
\<close>

definition ruler_candidates :: "edge_ops \<Rightarrow> Box \<Rightarrow> Point \<Rightarrow> Annotation \<Rightarrow> AlignToolSelection list" where
  "ruler_candidates L sbox loc a =
     (if outline_is_box a then
        map (\<lambda>e. \<lparr>location = loc, search_box = sbox, edge = Some e, path = [], shape = None,
                  bbox_of_instance = None, layer = None, snap_point = None\<rparr>)
            (filter (\<lambda>e. clipped L e sbox \<noteq> None) (box_edges (ruler_box a)))
      else
        map (\<lambda>p. \<lparr>location = loc, search_box = sbox, edge = Some (Edge p p), path = [],
                  shape = None, bbox_of_instance = None, layer = None, snap_point = Some p\<rparr>)
            (filter (contains sbox) (ruler_points a)))"

text \<open>
  Instances first, then the shapes of each visible layer, then the rulers; each
  iterator is cut after \<open>iteration_limit\<close> positions.
\<close>

definition all_candidates :: "edge_ops \<Rightarrow> LayoutView \<Rightarrow> Point \<Rightarrow> int \<Rightarrow> bool \<Rightarrow> AlignToolSelection list" where
  "all_candidates L view loc max_distance consider_rulers =
     (let sbox = make_search_box loc max_distance;
          lo = max (min_hier_levels view - 1) 0;
          hi = max (max_hier_levels view - 1) 0
      in (if max_hier_levels view \<ge> 1 then
            concat (map (instance_candidates L sbox loc)
                      (take iteration_limit (begin_instances_rec_overlapping view sbox lo hi)))
          else []) @
         (if max_hier_levels view \<ge> 1 then
            concat (map (\<lambda>lyr. concat (map (shape_candidates sbox loc lyr)
                                         (take iteration_limit
                                            (begin_shapes_rec_overlapping view lyr sbox lo hi))))
                      (visible_layer_indexes view))
          else []) @
         (if consider_rulers then
            concat (map (ruler_candidates L sbox loc) (each_annotation view))
          else []))"

text \<open>
  A candidate can become the best one when the search box clips its edge; its distance
  is the distance \<open>consider_edge_selection\<close> compares.
\<close>

definition valid_candidate :: "edge_ops \<Rightarrow> Box \<Rightarrow> AlignToolSelection \<Rightarrow> bool" where
  "valid_candidate L sbox c = (case edge c of None \<Rightarrow> False | Some e \<Rightarrow> clipped L e sbox \<noteq> None)"

definition clip_distance :: "edge_ops \<Rightarrow> Box \<Rightarrow> Point \<Rightarrow> AlignToolSelection \<Rightarrow> nat" where
  "clip_distance L sbox loc c =
     (case edge c of
        None \<Rightarrow> 0
      | Some e \<Rightarrow> (case clipped L e sbox of None \<Rightarrow> 0 | Some i \<Rightarrow> distance_abs L i loc))"

text \<open>The best of \<open>n\<close> and the candidates after it: a later one wins only if strictly nearer.\<close>

fun best_from :: "('a \<Rightarrow> nat) \<Rightarrow> 'a \<Rightarrow> 'a list \<Rightarrow> 'a" where
  "best_from f n [] = n"
| "best_from f n (c # cs) = best_from f (if f c < f n then c else n) cs"

text \<open>
  What the finder needs of \<open>Edge.clipped\<close> for the snap points: an edge of length
  zero is clipped to \<open>None\<close> unless its point lies in the box.
\<close>

definition clips_points_inside :: "edge_ops \<Rightarrow> bool" where
  "clips_points_inside L = (\<forall>p b. clipped L (Edge p p) b \<noteq> None \<longrightarrow> contains b p)"




section \<open>Reference versions of the two edge operations\<close>

text \<open>
  The worked examples need the two operations at concrete edges. \<open>ref_clipped\<close>
  clips first in x, then in y, and rounds a crossing point to the nearest integer.
  \<open>ref_distance_abs\<close> is the distance of the point from the line through the edge,
  rounded to the nearest integer, and 0 for an edge of length zero. Both are exact on
  horizontal, vertical and zero-length edges, the only ones the examples use.
\<close>

definition rounded :: "rat \<Rightarrow> int" where
  "rounded v = (if 0 < v then \<lfloor>v + 1 / 2\<rfloor> else \<lceil>v - 1 / 2\<rceil>)"

definition ref_clipped :: "Edge \<Rightarrow> Box \<Rightarrow> Edge option" where
  "ref_clipped e b =
     (let swap_x = (x2 e < x1 e);
          a0 = (if swap_x then p2 e else p1 e);
          c0 = (if swap_x then p1 e else p2 e);
          y_at = (\<lambda>x. y1 e + rounded (of_int (x - x1 e) * of_int (dy e) / of_int (dx e)));
          x_at = (\<lambda>y. max (b_left b) (min (b_right b)
                    (x1 e + rounded (of_int (y - y1 e) * of_int (dx e) / of_int (dy e)))))
      in if px c0 < b_left b then None
         else
           (let a1 = (if px a0 < b_left b then Point (b_left b) (y_at (b_left b)) else a0)
            in if b_right b < px a1 then None
               else
                 (let c1 = (if b_right b < px c0 then Point (b_right b) (y_at (b_right b)) else c0);
                      swap_y = (py c1 < py a1);
                      a2 = (if swap_y then c1 else a1);
                      c2 = (if swap_y then a1 else c1)
                  in if py c2 < b_bottom b then None
                     else
                       (let a3 = (if py a2 < b_bottom b then Point (x_at (b_bottom b)) (b_bottom b) else a2)
                        in if b_top b < py a3 then None
                           else
                             (let c3 = (if b_top b < py c2 then Point (x_at (b_top b)) (b_top b) else c2)
                              in Some (if swap_x \<noteq> swap_y then Edge c3 a3 else Edge a3 c3))))))"

fun least_from :: "(nat \<Rightarrow> bool) \<Rightarrow> nat \<Rightarrow> nat \<Rightarrow> nat" where
  "least_from P n 0 = n"
| "least_from P n (Suc k) = (if P n then n else least_from P (Suc n) k)"

definition ref_distance_abs :: "Edge \<Rightarrow> Point \<Rightarrow> nat" where
  "ref_distance_abs e p =
     (if p1 e = p2 e then 0
      else
        (let cross = \<bar>dx e * (py p - y1 e) - dy e * (px p - x1 e)\<bar>;
             len2 = (dx e)\<^sup>2 + (dy e)\<^sup>2
         in least_from (\<lambda>n. 4 * cross\<^sup>2 < (2 * int n + 1)\<^sup>2 * len2) 0 (nat cross)))"

definition ref_ops :: edge_ops where
  "ref_ops = \<lparr>clipped = ref_clipped, distance_abs = ref_distance_abs\<rparr>"

section \<open>Values of the worked examples\<close>

text \<open>
  A selection as the finder returns it for a shape of the top cell: the edge, an empty
  path, the shape and its layer, and the snap point if the feature is a point.
\<close>

definition example_selection :: "Edge \<Rightarrow> Point option \<Rightarrow> AlignToolSelection" where
  "example_selection e sp =
     \<lparr>location = p1 e, search_box = make_search_box (p1 e) 20, edge = Some e, path = [],
      shape = Some (ShapeObj (Shape 1)), bbox_of_instance = None, layer = Some 1,
      snap_point = sp\<rparr>"

text \<open>
  A view with the levels 0 to 1 shown, one visible layer 7 and the given positions of
  its iterators; a square shape of the top cell; an instance of the top cell; and a
  feature as the finder builds it from the box of an instance.
\<close>

definition example_view :: "InstPosition list \<Rightarrow> ShapePosition list \<Rightarrow> Annotation list \<Rightarrow> LayoutView" where
  "example_view insts shapes rulers =
     \<lparr>min_hier_levels = 0, max_hier_levels = 1, top_cell_hidden = False,
      each_layer = [\<lparr>visible = True, valid = True, layer_index = 7\<rparr>],
      begin_instances_rec_overlapping = (\<lambda>b lo hi. insts),
      begin_shapes_rec_overlapping = (\<lambda>lyr b lo hi. if lyr = 7 then shapes else []),
      each_annotation = rulers\<rparr>"

definition example_square :: "Shape \<Rightarrow> Box \<Rightarrow> ShapePosition" where
  "example_square sh b =
     \<lparr>current_shape = sh, polygon = Some \<lparr>each_edge = box_edges b, bbox = b\<rparr>, shape_path = []\<rparr>"

definition example_instance :: "Instance \<Rightarrow> bool \<Rightarrow> Box \<Rightarrow> InstPosition" where
  "example_instance i hidden b =
     \<lparr>current_inst = i, cell_hidden = hidden, inst_bbox_from_top = b, inst_path = []\<rparr>"

definition instance_edge_feature :: "Point \<Rightarrow> Box \<Rightarrow> Instance \<Rightarrow> Box \<Rightarrow> Edge \<Rightarrow> Point option \<Rightarrow> AlignToolSelection" where
  "instance_edge_feature loc sbox i b e sp =
     \<lparr>location = loc, search_box = sbox, edge = Some e, path = [], shape = Some (BoxObj b),
      bbox_of_instance = Some i, layer = None, snap_point = sp\<rparr>"

section \<open>Properties of the alignment resolver\<close>

lemma transform_all_Some:
  "transform_all (map Some ts) sx sy = (map (\<lambda>t. Transform t sx sy) ts, None)"
  by (induction ts) auto

lemma snap_to_grid_zero: "snap_to_grid g 0 = 0"
  by (simp add: snap_to_grid_def py_round_def)

lemma py_round_examples: "py_round (3 / 5) = 1" "py_round (7 / 5) = 1"
  by code_simp+

text \<open>Past the offset, \<open>commit_align\<close> opens the transaction, moves, commits and deactivates.\<close>

lemma commit_align_offset:
  assumes "align_offset s1 s2 = Inr (Some (ox, oy))" "g \<noteq> 0"
  shows "commit_align pre g s1 s2 =
           (Transaction ''align'' #
              fst (transform_all (transformees_of pre s1) (snap_to_grid g ox) (snap_to_grid g oy)) @
              Commit # deactivate,
            snd (transform_all (transformees_of pre s1) (snap_to_grid g ox) (snap_to_grid g oy)))"
  using assms by (simp add: commit_align_def split: prod.splits)



lemma align_offset_point_edge:
  assumes "snap_point s1 = Some sp" "snap_point s2 = None" "edge s2 = Some e"
  shows "align_offset s1 s2 =
           Inr (Some (if dy e = 0 then (0, py (p1 e) - py sp)
                      else if dx e = 0 then (px (p1 e) - px sp, 0) else (0, 0)))"
  using assms by (simp add: align_offset_def)

lemma align_offset_edge_point:
  assumes "snap_point s1 = None" "edge s1 = Some e" "snap_point s2 = Some sp"
  shows "align_offset s1 s2 =
           Inr (Some (if dy e = 0 then (0, py sp - py (p1 e))
                      else if dx e = 0 then (px sp - px (p1 e), 0) else (0, 0)))"
  using assms by (simp add: align_offset_def)




text \<open>
  Claim C5. A pre-selection that is not empty is the list of transformees, whatever the
  two selections are. With an empty pre-selection the source selection decides: with
  an empty path its shape, or its instance when \<open>bbox_of_instance\<close> is set; with a
  path of one or more elements the instance of the first, outermost element. These
  are the objects \<open>commit_align\<close> transforms inside the transaction.
\<close>

theorem transformee_precedence:
  "(pre \<noteq> [] \<longrightarrow> transformees_of pre s1 = map Some pre) \<and>
   (pre = [] \<and> path s1 = [] \<and> bbox_of_instance s1 = None \<longrightarrow>
      transformees_of pre s1 = [shape s1]) \<and>
   (pre = [] \<and> path s1 = [] \<and> bbox_of_instance s1 = Some i \<longrightarrow>
      transformees_of pre s1 = [Some (InstanceObj i)]) \<and>
   (pre = [] \<and> path s1 = el # rest \<longrightarrow>
      transformees_of pre s1 = [Some (InstanceObj (inst el))]) \<and>
   (align_offset s1 s2 = Inr (Some (ox, oy)) \<and> g \<noteq> 0 \<longrightarrow>
      commit_align pre g s1 s2 =
        (Transaction ''align'' #
           fst (transform_all (transformees_of pre s1) (snap_to_grid g ox) (snap_to_grid g oy)) @
           Commit # deactivate,
         snd (transform_all (transformees_of pre s1) (snap_to_grid g ox) (snap_to_grid g oy)))) \<and>
   (pre \<noteq> [] \<and> align_offset s1 s2 = Inr (Some (ox, oy)) \<and> g \<noteq> 0 \<longrightarrow>
      commit_align pre g s1 s2 =
        (Transaction ''align'' #
           map (\<lambda>t. Transform t (snap_to_grid g ox) (snap_to_grid g oy)) pre @
           Commit # deactivate, None))"
proof -
  have a: "pre \<noteq> [] \<Longrightarrow> transformees_of pre s1 = map Some pre"
    by (cases pre) (simp_all add: transformees_of_def)
  have b: "pre = [] \<Longrightarrow> path s1 = [] \<Longrightarrow> bbox_of_instance s1 = None \<Longrightarrow>
      transformees_of pre s1 = [shape s1]"
    by (simp add: transformees_of_def)
  have c: "pre = [] \<Longrightarrow> path s1 = [] \<Longrightarrow> bbox_of_instance s1 = Some i \<Longrightarrow>
      transformees_of pre s1 = [Some (InstanceObj i)]"
    by (simp add: transformees_of_def)
  have d: "pre = [] \<Longrightarrow> path s1 = el # rest \<Longrightarrow>
      transformees_of pre s1 = [Some (InstanceObj (inst el))]"
    by (simp add: transformees_of_def)
  show ?thesis
    using a b c d commit_align_offset [of s1 s2 ox oy g pre]
    by (simp add: transform_all_Some)
qed

text \<open>
  Claim C5 at concrete inputs: a pre-selection of a shape and an instance; then no
  pre-selection, with a shape of the top cell, with the bounding box of an instance
  of the top cell, and with a shape two levels down.
\<close>

theorem transformee_precedence_witness:
  "commit_align [ShapeObj (Shape 7), InstanceObj (Instance 3)] 5
     (example_selection (Edge (Point 10 10) (Point 10 10)) (Some (Point 10 10)))
     (example_selection (Edge (Point 13 17) (Point 13 17)) (Some (Point 13 17))) =
     ([Transaction ''align'', Transform (ShapeObj (Shape 7)) 5 5,
       Transform (InstanceObj (Instance 3)) 5 5, Commit, SendKeyPress esc_key], None) \<and>
   transformees_of [] (example_selection (Edge (Point 10 10) (Point 10 10)) None) =
     [Some (ShapeObj (Shape 1))] \<and>
   transformees_of []
     ((example_selection (Edge (Point 10 10) (Point 10 10)) None)
        \<lparr>bbox_of_instance := Some (Instance 4)\<rparr>) = [Some (InstanceObj (Instance 4))] \<and>
   transformees_of []
     ((example_selection (Edge (Point 10 10) (Point 10 10)) None)
        \<lparr>path := [InstElement (Instance 5), InstElement (Instance 6)]\<rparr>) =
     [Some (InstanceObj (Instance 5))]"
  using transformee_precedence [of "[ShapeObj (Shape 7), InstanceObj (Instance 3)]"
          "example_selection (Edge (Point 10 10) (Point 10 10)) (Some (Point 10 10))" "Instance 4"
          "InstElement (Instance 5)" "[]"
          "example_selection (Edge (Point 13 17) (Point 13 17)) (Some (Point 13 17))" 3 7 5]
        transformee_precedence [of "[]"
          "example_selection (Edge (Point 10 10) (Point 10 10)) None" "Instance 4"
          "InstElement (Instance 5)" "[]"
          "example_selection (Edge (Point 13 17) (Point 13 17)) (Some (Point 13 17))" 3 7 5]
        transformee_precedence [of "[]"
          "(example_selection (Edge (Point 10 10) (Point 10 10)) None)
             \<lparr>bbox_of_instance := Some (Instance 4)\<rparr>" "Instance 4"
          "InstElement (Instance 5)" "[]"
          "example_selection (Edge (Point 13 17) (Point 13 17)) (Some (Point 13 17))" 3 7 5]
        transformee_precedence [of "[]"
          "(example_selection (Edge (Point 10 10) (Point 10 10)) None)
             \<lparr>path := [InstElement (Instance 5), InstElement (Instance 6)]\<rparr>" "Instance 4"
          "InstElement (Instance 5)" "[InstElement (Instance 6)]"
          "example_selection (Edge (Point 13 17) (Point 13 17)) (Some (Point 13 17))" 3 7 5]
  by (simp add: example_selection_def align_offset_def snap_to_grid_def py_round_examples
        deactivate_def)



text \<open>
  Claim C7. In the two mixed cases (a point as source and an edge as target, or an edge
  as source and a point as target) an edge that is neither horizontal nor vertical
  gives the offset (0,0), and the translation applied is the identity; an offset
  other than (0,0) comes from a horizontal or a vertical edge only.
\<close>

theorem mixed_diagonal_zero_offset:
  assumes mixed:
    "(snap_point s1 = Some sp \<and> snap_point s2 = None \<and> edge s2 = Some e) \<or>
     (snap_point s1 = None \<and> edge s1 = Some e \<and> snap_point s2 = Some sp)"
  shows "(dx e \<noteq> 0 \<and> dy e \<noteq> 0 \<longrightarrow>
            align_offset s1 s2 = Inr (Some (0, 0)) \<and>
            (g \<noteq> 0 \<longrightarrow>
               commit_align pre g s1 s2 =
                 (Transaction ''align'' # fst (transform_all (transformees_of pre s1) 0 0) @
                    Commit # deactivate,
                  snd (transform_all (transformees_of pre s1) 0 0)))) \<and>
         (\<forall>ox oy. align_offset s1 s2 = Inr (Some (ox, oy)) \<and> (ox, oy) \<noteq> (0, 0) \<longrightarrow>
            dx e = 0 \<or> dy e = 0)"
proof -
  have off: "align_offset s1 s2 = Inr (Some (0, 0))" if "dx e \<noteq> 0" "dy e \<noteq> 0"
    using mixed that align_offset_point_edge [of s1 sp s2 e] align_offset_edge_point [of s1 e s2 sp]
    by auto
  have com: "commit_align pre g s1 s2 =
                 (Transaction ''align'' # fst (transform_all (transformees_of pre s1) 0 0) @
                    Commit # deactivate,
                  snd (transform_all (transformees_of pre s1) 0 0))"
    if "dx e \<noteq> 0" "dy e \<noteq> 0" "g \<noteq> 0"
    using commit_align_offset [OF off [OF that(1,2)] that(3), of pre]
    by (simp add: snap_to_grid_zero)
  have only: "dx e = 0 \<or> dy e = 0"
    if "align_offset s1 s2 = Inr (Some (ox, oy))" "(ox, oy) \<noteq> (0, 0)" for ox oy
    using off that by fastforce
  show ?thesis using off com only by blast
qed

text \<open>
  Claim C7 at the point (4,4) and the diagonal edge from (0,0) to (10,10), in both
  orders, and at the horizontal edge from (0,10) to (20,10), where the offset is (0,6).
\<close>

theorem mixed_diagonal_zero_offset_witness:
  "commit_align [] 5 (example_selection (Edge (Point 4 4) (Point 4 4)) (Some (Point 4 4)))
                     (example_selection (Edge (Point 0 0) (Point 10 10)) None) =
     ([Transaction ''align'', Transform (ShapeObj (Shape 1)) 0 0, Commit, SendKeyPress esc_key], None) \<and>
   commit_align [] 5 (example_selection (Edge (Point 0 0) (Point 10 10)) None)
                     (example_selection (Edge (Point 4 4) (Point 4 4)) (Some (Point 4 4))) =
     ([Transaction ''align'', Transform (ShapeObj (Shape 1)) 0 0, Commit, SendKeyPress esc_key], None) \<and>
   align_offset (example_selection (Edge (Point 4 4) (Point 4 4)) (Some (Point 4 4)))
                (example_selection (Edge (Point 0 10) (Point 20 10)) None) = Inr (Some (0, 6)) \<and>
   dy (Edge (Point 0 10) (Point 20 10)) = 0"
  using mixed_diagonal_zero_offset [of "example_selection (Edge (Point 4 4) (Point 4 4)) (Some (Point 4 4))"
            "Point 4 4" "example_selection (Edge (Point 0 0) (Point 10 10)) None"
            "Edge (Point 0 0) (Point 10 10)" 5 "[]"]
        mixed_diagonal_zero_offset [of "example_selection (Edge (Point 0 0) (Point 10 10)) None"
            "Point 4 4" "example_selection (Edge (Point 4 4) (Point 4 4)) (Some (Point 4 4))"
            "Edge (Point 0 0) (Point 10 10)" 5 "[]"]
        mixed_diagonal_zero_offset [of "example_selection (Edge (Point 4 4) (Point 4 4)) (Some (Point 4 4))"
            "Point 4 4" "example_selection (Edge (Point 0 10) (Point 20 10)) None"
            "Edge (Point 0 10) (Point 20 10)" 5 "[]"]
  by (simp add: example_selection_def transformees_of_def deactivate_def
        dx_def dy_def x1_def x2_def y1_def y2_def align_offset_def)

section \<open>Properties of the feature finder\<close>

subsection \<open>The loops register the candidates in order\<close>

text \<open>
  A loop over a list of lists, and the counted loop: it visits the first 1000 positions.
\<close>

lemma for_each_append:
  "for_each body (as @ bs) s =
     (case for_each body as s of Inl err \<Rightarrow> Inl err | Inr s' \<Rightarrow> for_each body bs s')"
  by (induction as arbitrary: s) (auto split: sum.splits)

lemma for_each_concat:
  "for_each (\<lambda>a. for_each body (f a)) as s = for_each body (concat (map f as)) s"
  by (induction as arbitrary: s) (auto simp: for_each_append split: sum.splits)

lemma iter_loop_take:
  "i < iteration_limit \<Longrightarrow>
     iter_loop body iter i s = for_each body (take (iteration_limit - i) iter) s"
proof (induction iter arbitrary: i s)
  case Nil
  then show ?case by simp
next
  case (Cons a iter)
  show ?case
  proof (cases "body a s")
    case (Inl err)
    with Cons.prems show ?thesis
      by (simp add: take_Cons')
  next
    case (Inr s')
    show ?thesis
    proof (cases "i + 1 \<ge> iteration_limit")
      case True
      with Cons.prems have "iteration_limit - i = 1" by simp
      with Inr True show ?thesis by simp
    next
      case False
      then have lt: "i + 1 < iteration_limit" by simp
      have "take (iteration_limit - i) (a # iter) = a # take (iteration_limit - (i + 1)) iter"
        using lt by (simp add: take_Cons')
      with Inr False Cons.IH [OF lt] show ?thesis by simp
    qed
  qed
qed

lemma iter_loop_limit:
  "iter_loop body iter 0 s = for_each body (take iteration_limit iter) s"
  using iter_loop_take [of 0 body iter s] by (simp add: iteration_limit_def)

text \<open>
  Each body hands the candidates of its position to \<open>consider_edge_selection\<close>, one
  after the other.
\<close>

lemma for_each_register_map:
  "for_each (\<lambda>e n. consider_edge_selection L sbox loc n (g e)) es n =
     for_each (register L sbox loc) (map g es) n"
  by (induction es arbitrary: n) (auto simp: register_def split: sum.splits)

lemma for_each_register_filter_map:
  "for_each (\<lambda>e n. if P e then consider_edge_selection L sbox loc n (g e) else Inr n) es n =
     for_each (register L sbox loc) (map g (filter P es)) n"
  by (induction es arbitrary: n) (auto simp: register_def split: sum.splits)

lemma instance_body_register:
  "instance_body L sbox loc pos n =
     for_each (register L sbox loc) (instance_candidates L sbox loc pos) n"
  unfolding instance_body_def instance_candidates_def
  by (simp add: for_each_append for_each_register_filter_map register_def Let_def
        split: sum.splits)

lemma shape_body_register:
  "shape_body L sbox loc lyr pos n =
     for_each (register L sbox loc) (shape_candidates sbox loc lyr pos) n"
  unfolding shape_body_def shape_candidates_def
  by (simp add: for_each_append for_each_register_map register_def Let_def
        split: sum.splits option.splits)

lemma ruler_body_register:
  "ruler_body L sbox loc a n =
     for_each (register L sbox loc) (ruler_candidates L sbox loc a) n"
  unfolding ruler_body_def ruler_candidates_def
  by (simp add: for_each_register_filter_map register_def Let_def split: sum.splits)

lemma instance_pass_register:
  "instance_pass L view sbox loc n =
     for_each (register L sbox loc)
       (if max_hier_levels view \<ge> 1 then
          concat (map (instance_candidates L sbox loc)
                    (take iteration_limit
                       (begin_instances_rec_overlapping view sbox
                          (max (min_hier_levels view - 1) 0) (max (max_hier_levels view - 1) 0))))
        else []) n"
proof -
  have b: "instance_body L sbox loc = (\<lambda>pos. for_each (register L sbox loc) (instance_candidates L sbox loc pos))"
    by (simp add: fun_eq_iff instance_body_register)
  show ?thesis
    unfolding instance_pass_def iter_loop_limit b by (simp add: for_each_concat)
qed

lemma shape_pass_register:
  "shape_pass L view sbox loc n =
     for_each (register L sbox loc)
       (if max_hier_levels view \<ge> 1 then
          concat (map (\<lambda>lyr. concat (map (shape_candidates sbox loc lyr)
                                       (take iteration_limit
                                          (begin_shapes_rec_overlapping view lyr sbox
                                             (max (min_hier_levels view - 1) 0)
                                             (max (max_hier_levels view - 1) 0)))))
                    (visible_layer_indexes view))
        else []) n"
proof -
  have b: "shape_body L sbox loc = (\<lambda>lyr pos. for_each (register L sbox loc) (shape_candidates sbox loc lyr pos))"
    by (simp add: fun_eq_iff shape_body_register)
  show ?thesis
    unfolding shape_pass_def iter_loop_limit b
    by (simp add: for_each_concat
          for_each_concat [where body = "register L sbox loc"
            and f = "\<lambda>lyr. concat (map (shape_candidates sbox loc lyr)
                                       (take iteration_limit
                                          (begin_shapes_rec_overlapping view lyr sbox
                                             (max (min_hier_levels view - 1) 0)
                                             (max (max_hier_levels view - 1) 0))))", symmetric])
qed

lemma ruler_pass_register:
  "ruler_pass L view sbox loc consider_rulers n =
     for_each (register L sbox loc)
       (if consider_rulers then concat (map (ruler_candidates L sbox loc) (each_annotation view))
        else []) n"
proof -
  have b: "ruler_body L sbox loc = (\<lambda>a. for_each (register L sbox loc) (ruler_candidates L sbox loc a))"
    by (simp add: fun_eq_iff ruler_body_register)
  show ?thesis
    unfolding ruler_pass_def b by (simp add: for_each_concat)
qed

text \<open>
  So \<open>find_selection\<close> registers the candidates of \<open>all_candidates\<close> in order,
  starting with no selection, and finishes with the snap point.
\<close>

lemma find_selection_register:
  "find_selection L view loc max_distance consider_rulers =
     (if top_cell_hidden view then Inr None
      else
        (case for_each (register L (make_search_box loc max_distance) loc)
                (all_candidates L view loc max_distance consider_rulers)
                (no_selection loc (make_search_box loc max_distance)) of
           Inl err \<Rightarrow> Inl err
         | Inr n \<Rightarrow> finish_selection (make_search_box loc max_distance) loc n))"
proof (cases "top_cell_hidden view")
  case True
  then show ?thesis by (simp add: find_selection_def)
next
  case False
  define sbox where "sbox = make_search_box loc max_distance"
  define A where "A = (if max_hier_levels view \<ge> 1 then
          concat (map (instance_candidates L sbox loc)
                    (take iteration_limit
                       (begin_instances_rec_overlapping view sbox
                          (max (min_hier_levels view - 1) 0) (max (max_hier_levels view - 1) 0))))
        else [])"
  define B where "B = (if max_hier_levels view \<ge> 1 then
          concat (map (\<lambda>lyr. concat (map (shape_candidates sbox loc lyr)
                                       (take iteration_limit
                                          (begin_shapes_rec_overlapping view lyr sbox
                                             (max (min_hier_levels view - 1) 0)
                                             (max (max_hier_levels view - 1) 0)))))
                    (visible_layer_indexes view))
        else [])"
  define C where "C = (if consider_rulers then
          concat (map (ruler_candidates L sbox loc) (each_annotation view)) else [])"
  have all: "all_candidates L view loc max_distance consider_rulers = A @ B @ C"
    unfolding all_candidates_def A_def B_def C_def sbox_def Let_def by (rule refl)
  have ip: "\<And>n. instance_pass L view sbox loc n = for_each (register L sbox loc) A n"
    unfolding A_def by (rule instance_pass_register)
  have sp: "\<And>n. shape_pass L view sbox loc n = for_each (register L sbox loc) B n"
    unfolding B_def by (rule shape_pass_register)
  have rp: "\<And>n. ruler_pass L view sbox loc consider_rulers n = for_each (register L sbox loc) C n"
    unfolding C_def by (rule ruler_pass_register)
  have "find_selection L view loc max_distance consider_rulers =
          (case for_each (register L sbox loc) A (no_selection loc sbox) of
             Inl err \<Rightarrow> Inl err
           | Inr n1 \<Rightarrow>
              (case for_each (register L sbox loc) B n1 of
                 Inl err \<Rightarrow> Inl err
               | Inr n2 \<Rightarrow>
                  (case for_each (register L sbox loc) C n2 of
                     Inl err \<Rightarrow> Inl err
                   | Inr n3 \<Rightarrow> finish_selection sbox loc n3)))"
    using False unfolding find_selection_def Let_def sbox_def [symmetric] ip sp rp by simp
  also have "\<dots> = (case for_each (register L sbox loc) (A @ B @ C) (no_selection loc sbox) of
                     Inl err \<Rightarrow> Inl err
                   | Inr n \<Rightarrow> finish_selection sbox loc n)"
    by (simp add: for_each_append split: sum.splits)
  finally have "find_selection L view loc max_distance consider_rulers =
      (case for_each (register L sbox loc) (A @ B @ C) (no_selection loc sbox) of
         Inl err \<Rightarrow> Inl err
       | Inr n \<Rightarrow> finish_selection sbox loc n)" .
  then show ?thesis
    unfolding all sbox_def using False by simp
qed

subsection \<open>The best candidate\<close>

text \<open>
  One call of \<open>consider_edge_selection\<close>, when the best so far has a clip: no
  exception, and the new candidate replaces the best when it has a clip itself and
  either there is no best yet or it is strictly nearer.
\<close>

lemma register_step:
  assumes "edge c = Some e" and "edge n = None \<or> valid_candidate L sbox n"
  shows "register L sbox loc c n =
           Inr (if valid_candidate L sbox c \<and>
                   (edge n = None \<or> clip_distance L sbox loc c < clip_distance L sbox loc n)
                then c else n)"
  using assms
  by (auto simp: register_def consider_edge_selection_def valid_candidate_def clip_distance_def
        Let_def split: option.splits)

lemma for_each_register_from_valid:
  assumes "\<forall>c\<in>set cs. edge c \<noteq> None" and "valid_candidate L sbox n"
  shows "for_each (register L sbox loc) cs n =
           Inr (best_from (clip_distance L sbox loc) n (filter (valid_candidate L sbox) cs))"
  using assms
proof (induction cs arbitrary: n)
  case Nil
  then show ?case by simp
next
  case (Cons c cs)
  from Cons.prems obtain e where e: "edge c = Some e" by auto
  have nv: "edge n \<noteq> None"
    using Cons.prems(2) by (auto simp: valid_candidate_def split: option.splits)
  let ?n' = "if valid_candidate L sbox c \<and> clip_distance L sbox loc c < clip_distance L sbox loc n
             then c else n"
  have step: "register L sbox loc c n = Inr ?n'"
    using register_step [OF e, of n L sbox loc] Cons.prems(2) nv by simp
  have v': "valid_candidate L sbox ?n'"
    using Cons.prems(2) by simp
  have "for_each (register L sbox loc) (c # cs) n = for_each (register L sbox loc) cs ?n'"
    using step by simp
  also have "\<dots> = Inr (best_from (clip_distance L sbox loc) ?n' (filter (valid_candidate L sbox) cs))"
    using Cons.IH [OF _ v'] Cons.prems(1) by simp
  finally show ?case by simp
qed

lemma for_each_register_from_none:
  assumes "\<forall>c\<in>set cs. edge c \<noteq> None" and "edge n = None"
  shows "for_each (register L sbox loc) cs n =
           Inr (case filter (valid_candidate L sbox) cs of
                  [] \<Rightarrow> n
                | c # rest \<Rightarrow> best_from (clip_distance L sbox loc) c rest)"
  using assms
proof (induction cs)
  case Nil
  then show ?case by simp
next
  case (Cons c cs)
  from Cons.prems obtain e where e: "edge c = Some e" by auto
  show ?case
  proof (cases "valid_candidate L sbox c")
    case True
    have step: "register L sbox loc c n = Inr c"
      using register_step [OF e, of n L sbox loc] Cons.prems(2) True by simp
    show ?thesis
      using step True for_each_register_from_valid [OF _ True, of cs loc] Cons.prems(1)
      by simp
  next
    case False
    have step: "register L sbox loc c n = Inr n"
      using register_step [OF e, of n L sbox loc] Cons.prems(2) False by simp
    show ?thesis
      using step False Cons.IH Cons.prems by simp
  qed
qed

text \<open>
  \<open>best_from\<close> returns the first of the nearest: everything before it is strictly
  farther, nothing after it is nearer.
\<close>

lemma best_from_cases:
  "(best_from f n xs = n \<and> (\<forall>x\<in>set xs. f n \<le> f x)) \<or>
   (\<exists>pre post. xs = pre @ best_from f n xs # post \<and> f (best_from f n xs) < f n \<and>
      (\<forall>x\<in>set pre. f (best_from f n xs) < f x) \<and>
      (\<forall>x\<in>set post. f (best_from f n xs) \<le> f x))"
proof (induction xs arbitrary: n)
  case Nil
  then show ?case by simp
next
  case (Cons c cs)
  let ?r = "best_from f n (c # cs)"
  show ?case
  proof (cases "f c < f n")
    case True
    then have r: "?r = best_from f c cs" by simp
    from Cons.IH [of c] show ?thesis
    proof
      assume a: "best_from f c cs = c \<and> (\<forall>x\<in>set cs. f c \<le> f x)"
      have "c # cs = [] @ ?r # cs \<and> f ?r < f n \<and> (\<forall>x\<in>set []. f ?r < f x) \<and>
            (\<forall>x\<in>set cs. f ?r \<le> f x)"
        using a r True by simp
      then show ?thesis by blast
    next
      assume "\<exists>pre post. cs = pre @ best_from f c cs # post \<and> f (best_from f c cs) < f c \<and>
          (\<forall>x\<in>set pre. f (best_from f c cs) < f x) \<and>
          (\<forall>x\<in>set post. f (best_from f c cs) \<le> f x)"
      then obtain pre post where d: "cs = pre @ best_from f c cs # post"
          "f (best_from f c cs) < f c"
          "\<forall>x\<in>set pre. f (best_from f c cs) < f x"
          "\<forall>x\<in>set post. f (best_from f c cs) \<le> f x"
        by blast
      have "c # cs = (c # pre) @ ?r # post \<and> f ?r < f n \<and> (\<forall>x\<in>set (c # pre). f ?r < f x) \<and>
            (\<forall>x\<in>set post. f ?r \<le> f x)"
        using d r True by auto
      then show ?thesis by blast
    qed
  next
    case False
    then have r: "?r = best_from f n cs" by simp
    from Cons.IH [of n] show ?thesis
    proof
      assume a: "best_from f n cs = n \<and> (\<forall>x\<in>set cs. f n \<le> f x)"
      then show ?thesis using r False by auto
    next
      assume "\<exists>pre post. cs = pre @ best_from f n cs # post \<and> f (best_from f n cs) < f n \<and>
          (\<forall>x\<in>set pre. f (best_from f n cs) < f x) \<and>
          (\<forall>x\<in>set post. f (best_from f n cs) \<le> f x)"
      then obtain pre post where d: "cs = pre @ best_from f n cs # post"
          "f (best_from f n cs) < f n"
          "\<forall>x\<in>set pre. f (best_from f n cs) < f x"
          "\<forall>x\<in>set post. f (best_from f n cs) \<le> f x"
        by blast
      have "c # cs = (c # pre) @ ?r # post \<and> f ?r < f n \<and> (\<forall>x\<in>set (c # pre). f ?r < f x) \<and>
            (\<forall>x\<in>set post. f ?r \<le> f x)"
        using d r False by auto
      then show ?thesis by blast
    qed
  qed
qed

lemma best_from_first_least:
  "\<exists>pre post. c # cs = pre @ best_from f c cs # post \<and>
      (\<forall>x\<in>set pre. f (best_from f c cs) < f x) \<and>
      (\<forall>x\<in>set post. f (best_from f c cs) \<le> f x)"
  using best_from_cases [of f c cs]
proof
  assume a: "best_from f c cs = c \<and> (\<forall>x\<in>set cs. f c \<le> f x)"
  have "c # cs = [] @ best_from f c cs # cs \<and> (\<forall>x\<in>set []. f (best_from f c cs) < f x) \<and>
      (\<forall>x\<in>set cs. f (best_from f c cs) \<le> f x)"
    using a by simp
  then show ?thesis by blast
next
  assume "\<exists>pre post. cs = pre @ best_from f c cs # post \<and> f (best_from f c cs) < f c \<and>
      (\<forall>x\<in>set pre. f (best_from f c cs) < f x) \<and>
      (\<forall>x\<in>set post. f (best_from f c cs) \<le> f x)"
  then obtain pre post where d: "cs = pre @ best_from f c cs # post"
      "f (best_from f c cs) < f c"
      "\<forall>x\<in>set pre. f (best_from f c cs) < f x"
      "\<forall>x\<in>set post. f (best_from f c cs) \<le> f x"
    by blast
  have "c # cs = (c # pre) @ best_from f c cs # post \<and>
      (\<forall>x\<in>set (c # pre). f (best_from f c cs) < f x) \<and>
      (\<forall>x\<in>set post. f (best_from f c cs) \<le> f x)"
    using d by auto
  then show ?thesis by blast
qed

lemma best_from_mem: "best_from f n xs \<in> insert n (set xs)"
  by (induction xs arbitrary: n) auto

text \<open>
  Every candidate has an edge, the search box and the location of the query, and a
  snap point only together with the zero-length edge at that point.
\<close>

lemma instance_candidates_wf:
  "c \<in> set (instance_candidates L sbox loc pos) \<Longrightarrow>
     edge c \<noteq> None \<and> search_box c = sbox \<and> location c = loc \<and>
     (\<forall>m. snap_point c = Some m \<longrightarrow> edge c = Some (Edge m m))"
  by (auto simp: instance_candidates_def split: if_splits)

lemma shape_candidates_wf:
  "c \<in> set (shape_candidates sbox loc lyr pos) \<Longrightarrow>
     edge c \<noteq> None \<and> search_box c = sbox \<and> location c = loc \<and>
     (\<forall>m. snap_point c = Some m \<longrightarrow> edge c = Some (Edge m m))"
  by (auto simp: shape_candidates_def split: option.splits)

lemma ruler_candidates_wf:
  "c \<in> set (ruler_candidates L sbox loc a) \<Longrightarrow>
     edge c \<noteq> None \<and> search_box c = sbox \<and> location c = loc \<and>
     (\<forall>m. snap_point c = Some m \<longrightarrow> edge c = Some (Edge m m))"
  by (auto simp: ruler_candidates_def split: if_splits)

lemma all_candidates_wf:
  assumes "c \<in> set (all_candidates L view loc max_distance consider_rulers)"
  shows "edge c \<noteq> None \<and> search_box c = make_search_box loc max_distance \<and> location c = loc \<and>
         (\<forall>m. snap_point c = Some m \<longrightarrow> edge c = Some (Edge m m))"
proof -
  let ?sbox = "make_search_box loc max_distance"
  from assms consider
    (i) pos where "c \<in> set (instance_candidates L ?sbox loc pos)"
  | (s) lyr pos where "c \<in> set (shape_candidates ?sbox loc lyr pos)"
  | (r) a where "c \<in> set (ruler_candidates L ?sbox loc a)"
    unfolding all_candidates_def Let_def by (auto split: if_splits)
  then show ?thesis
  proof cases
    case i then show ?thesis by (rule instance_candidates_wf)
  next
    case s then show ?thesis by (rule shape_candidates_wf)
  next
    case r then show ?thesis by (rule ruler_candidates_wf)
  qed
qed

lemma finish_no_selection: "finish_selection sbox loc (no_selection loc sbox) = Inr None"
  by (simp add: finish_selection_def no_selection_def)

lemma find_selection_best:
  "find_selection L view loc max_distance consider_rulers =
     (if top_cell_hidden view then Inr None
      else
        (case filter (valid_candidate L (make_search_box loc max_distance))
                (all_candidates L view loc max_distance consider_rulers) of
           [] \<Rightarrow> Inr None
         | c # rest \<Rightarrow>
            finish_selection (make_search_box loc max_distance) loc
              (best_from (clip_distance L (make_search_box loc max_distance) loc) c rest)))"
proof -
  have e: "\<forall>c\<in>set (all_candidates L view loc max_distance consider_rulers). edge c \<noteq> None"
    using all_candidates_wf by blast
  have n: "edge (no_selection loc (make_search_box loc max_distance)) = None"
    by (simp add: no_selection_def)
  show ?thesis
    unfolding find_selection_register for_each_register_from_none [OF e n]
    by (simp add: finish_no_selection split: list.splits)
qed

text \<open>
  The candidate behind a returned feature.
\<close>

lemma find_selection_winner:
  assumes "find_selection L view loc max_distance consider_rulers = Inr (Some f)"
  shows "\<exists>r. r \<in> set (all_candidates L view loc max_distance consider_rulers) \<and>
             valid_candidate L (make_search_box loc max_distance) r \<and>
             finish_selection (make_search_box loc max_distance) loc r = Inr (Some f)"
proof -
  let ?sbox = "make_search_box loc max_distance"
  let ?vs = "filter (valid_candidate L ?sbox) (all_candidates L view loc max_distance consider_rulers)"
  from assms obtain c rest where vs: "?vs = c # rest"
    and fin: "finish_selection ?sbox loc (best_from (clip_distance L ?sbox loc) c rest) = Inr (Some f)"
    unfolding find_selection_best by (auto split: if_splits list.splits)
  have "best_from (clip_distance L ?sbox loc) c rest \<in> set ?vs"
    using best_from_mem [of "clip_distance L ?sbox loc" c rest] vs by simp
  then show ?thesis using fin by auto
qed

lemma finish_selection_Some:
  assumes "finish_selection sbox loc r = Inr (Some f)"
  shows "\<exists>e np. edge r = Some e \<and> find_nearest_edge_point loc e = Some np \<and>
                 f = (if contains sbox np then r\<lparr>snap_point := Some np\<rparr> else r)"
  using assms by (auto simp: finish_selection_def split: option.splits if_splits)

subsection \<open>The nearest point of an edge\<close>

lemma edge_center_point: "edge_center (Edge m m) = m"
  by (simp add: edge_center_def halfway_def float_to_coord_def x1_def x2_def y1_def y2_def)

lemma find_nearest_edge_point_degenerate:
  "find_nearest_edge_point loc (Edge m m) = Some np \<Longrightarrow> np = m"
  by (auto simp: find_nearest_edge_point_def edge_points_def edge_center_point Let_def
        split: if_splits)







lemma sqrt_less_numeral:
  "sqrt x < numeral k \<longleftrightarrow> x < (numeral k)\<^sup>2"
proof -
  have e: "sqrt ((numeral k)\<^sup>2) = numeral k"
    by (simp only: real_sqrt_abs abs_numeral)
  show ?thesis
    using real_sqrt_less_iff [of x "(numeral k)\<^sup>2"] unfolding e .
qed

subsection \<open>The iteration limit and the coordinate range\<close>







subsection \<open>The reference operations and the example queries\<close>

lemma ref_clipped_point:
  "ref_clipped (Edge p p) b = (if contains b p then Some (Edge p p) else None)"
  by (auto simp: ref_clipped_def contains_def Let_def x1_def x2_def y1_def y2_def dx_def dy_def)

lemma ref_ops_clips_points_inside: "clips_points_inside ref_ops"
  by (simp add: clips_points_inside_def ref_ops_def ref_clipped_point)

text \<open>
  Two instances whose boxes show a vertical edge at distance 5 on either side of the
  query point (0,0); the centres of both boxes are outside the search box.
\<close>

lemma tie_scan:
  "for_each (register ref_ops (make_search_box (Point 0 0) 10) (Point 0 0))
     (all_candidates ref_ops
        (example_view [example_instance (Instance 2) False (MkBox 5 (- 50) 100 50),
                       example_instance (Instance 3) False (MkBox (- 100) (- 50) (- 5) 50)] [] [])
        (Point 0 0) 10 False)
     (no_selection (Point 0 0) (make_search_box (Point 0 0) 10)) =
   Inr (instance_edge_feature (Point 0 0) (MkBox (- 10) (- 10) 10 10) (Instance 2)
          (MkBox 5 (- 50) 100 50) (Edge (Point 5 (- 50)) (Point 5 50)) None)"
  by code_simp

lemma tie_distances:
  "clip_distance ref_ops (MkBox (- 10) (- 10) 10 10) (Point 0 0)
     (instance_edge_feature (Point 0 0) (MkBox (- 10) (- 10) 10 10) (Instance 2)
          (MkBox 5 (- 50) 100 50) (Edge (Point 5 (- 50)) (Point 5 50)) None) = 5"
  "clip_distance ref_ops (MkBox (- 10) (- 10) 10 10) (Point 0 0)
     (instance_edge_feature (Point 0 0) (MkBox (- 10) (- 10) 10 10) (Instance 3)
          (MkBox (- 100) (- 50) (- 5) 50) (Edge (Point (- 5) 50) (Point (- 5) (- 50))) None) = 5"
  "valid_candidate ref_ops (MkBox (- 10) (- 10) 10 10)
     (instance_edge_feature (Point 0 0) (MkBox (- 10) (- 10) 10 10) (Instance 2)
          (MkBox 5 (- 50) 100 50) (Edge (Point 5 (- 50)) (Point 5 50)) None)"
  "ref_clipped (Edge (Point (- 5) 50) (Point (- 5) (- 50))) (MkBox (- 10) (- 10) 10 10) =
     Some (Edge (Point (- 5) 10) (Point (- 5) (- 10)))"
  by code_simp+

lemma nearest_on_tie_edge:
  "find_nearest_edge_point (Point 0 0) (Edge (Point 5 (- 50)) (Point 5 50)) = Some (Point 5 0)"
proof -
  have c: "edge_center (Edge (Point 5 (- 50)) (Point 5 50)) = Point 5 0"
    by (simp add: edge_center_def halfway_def float_to_coord_def x1_def x2_def y1_def y2_def)
  show ?thesis
    by (simp add: find_nearest_edge_point_def edge_points_def c distance_def sqrt_less_numeral)
qed

lemma tie_find_selection:
  "find_selection ref_ops
     (example_view [example_instance (Instance 2) False (MkBox 5 (- 50) 100 50),
                    example_instance (Instance 3) False (MkBox (- 100) (- 50) (- 5) 50)] [] [])
     (Point 0 0) 10 False =
   Inr (Some (instance_edge_feature (Point 0 0) (MkBox (- 10) (- 10) 10 10) (Instance 2)
          (MkBox 5 (- 50) 100 50) (Edge (Point 5 (- 50)) (Point 5 50)) (Some (Point 5 0))))"
proof -
  have b: "make_search_box (Point 0 0) 10 = MkBox (- 10) (- 10) 10 10"
    by (simp add: make_search_box_def Box_def)
  show ?thesis
    unfolding find_selection_register tie_scan
    by (simp add: example_view_def b finish_selection_def instance_edge_feature_def
          nearest_on_tie_edge contains_def)
qed

text \<open>
  One instance alone: its left edge from (5,-50) to (5,50), or to (5,90), where the
  middle of the edge is outside the search box.
\<close>

lemma lone_instance_scan:
  "for_each (register ref_ops (make_search_box (Point 0 0) 10) (Point 0 0))
     (all_candidates ref_ops
        (example_view [example_instance (Instance 3) False (MkBox 5 (- 50) 100 50)] [] [])
        (Point 0 0) 10 False)
     (no_selection (Point 0 0) (make_search_box (Point 0 0) 10)) =
   Inr (instance_edge_feature (Point 0 0) (MkBox (- 10) (- 10) 10 10) (Instance 3)
          (MkBox 5 (- 50) 100 50) (Edge (Point 5 (- 50)) (Point 5 50)) None)"
  by code_simp

lemma lone_instance_found:
  "find_selection ref_ops
     (example_view [example_instance (Instance 3) False (MkBox 5 (- 50) 100 50)] [] [])
     (Point 0 0) 10 False =
   Inr (Some (instance_edge_feature (Point 0 0) (MkBox (- 10) (- 10) 10 10) (Instance 3)
          (MkBox 5 (- 50) 100 50) (Edge (Point 5 (- 50)) (Point 5 50)) (Some (Point 5 0))))"
proof -
  have b: "make_search_box (Point 0 0) 10 = MkBox (- 10) (- 10) 10 10"
    by (simp add: make_search_box_def Box_def)
  show ?thesis
    unfolding find_selection_register lone_instance_scan
    by (simp add: example_view_def b finish_selection_def instance_edge_feature_def
          nearest_on_tie_edge contains_def)
qed

lemma long_edge_scan:
  "for_each (register ref_ops (make_search_box (Point 0 0) 10) (Point 0 0))
     (all_candidates ref_ops
        (example_view [example_instance (Instance 3) False (MkBox 5 (- 50) 100 90)] [] [])
        (Point 0 0) 10 False)
     (no_selection (Point 0 0) (make_search_box (Point 0 0) 10)) =
   Inr (instance_edge_feature (Point 0 0) (MkBox (- 10) (- 10) 10 10) (Instance 3)
          (MkBox 5 (- 50) 100 90) (Edge (Point 5 (- 50)) (Point 5 90)) None)"
  by code_simp

lemma nearest_on_long_edge:
  "find_nearest_edge_point (Point 0 0) (Edge (Point 5 (- 50)) (Point 5 90)) = Some (Point 5 20)"
proof -
  have c: "edge_center (Edge (Point 5 (- 50)) (Point 5 90)) = Point 5 20"
    by (simp add: edge_center_def halfway_def float_to_coord_def x1_def x2_def y1_def y2_def)
  show ?thesis
    by (simp add: find_nearest_edge_point_def edge_points_def c distance_def sqrt_less_numeral)
qed

lemma long_edge_found:
  "find_selection ref_ops
     (example_view [example_instance (Instance 3) False (MkBox 5 (- 50) 100 90)] [] [])
     (Point 0 0) 10 False =
   Inr (Some (instance_edge_feature (Point 0 0) (MkBox (- 10) (- 10) 10 10) (Instance 3)
          (MkBox 5 (- 50) 100 90) (Edge (Point 5 (- 50)) (Point 5 90)) None))"
proof -
  have b: "make_search_box (Point 0 0) 10 = MkBox (- 10) (- 10) 10 10"
    by (simp add: make_search_box_def Box_def)
  show ?thesis
    unfolding find_selection_register long_edge_scan
    by (simp add: example_view_def b finish_selection_def instance_edge_feature_def
          nearest_on_long_edge contains_def)
qed

text \<open>
  A square shape on layer 7 around the query point: only its centre is in the search box.
\<close>

lemma nearest_at_origin:
  "find_nearest_edge_point (Point 0 0) (Edge (Point 0 0) (Point 0 0)) = Some (Point 0 0)"
  by (simp add: find_nearest_edge_point_def edge_points_def edge_center_point distance_def)

lemma square_scan:
  "for_each (register ref_ops (make_search_box (Point 0 0) 10) (Point 0 0))
     (all_candidates ref_ops
        (example_view [] [example_square (Shape 1) (MkBox (- 100) (- 100) 100 100)] [])
        (Point 0 0) 10 False)
     (no_selection (Point 0 0) (make_search_box (Point 0 0) 10)) =
   Inr \<lparr>location = Point 0 0, search_box = MkBox (- 10) (- 10) 10 10,
        edge = Some (Edge (Point 0 0) (Point 0 0)), path = [],
        shape = Some (ShapeObj (Shape 1)), bbox_of_instance = None, layer = None,
        snap_point = Some (Point 0 0)\<rparr>"
  by code_simp

text \<open>
  An instance whose box contains the search box and has its centre outside it.
\<close>

lemma empty_clip_scan:
  "all_candidates ref_ops
     (example_view [example_instance (Instance 2) False (MkBox (- 20) (- 20) 1000 1000)] [] [])
     (Point 0 0) 10 False =
     [instance_edge_feature (Point 0 0) (MkBox (- 10) (- 10) 10 10) (Instance 2)
        (MkBox (- 20) (- 20) 1000 1000) (Edge (Point 490 490) (Point 490 490))
        (Some (Point 490 490))]"
  "for_each (register ref_ops (make_search_box (Point 0 0) 10) (Point 0 0))
     (all_candidates ref_ops
        (example_view [example_instance (Instance 2) False (MkBox (- 20) (- 20) 1000 1000)] [] [])
        (Point 0 0) 10 False)
     (no_selection (Point 0 0) (make_search_box (Point 0 0) 10)) =
   Inr (no_selection (Point 0 0) (make_search_box (Point 0 0) 10))"
  by code_simp+



subsection \<open>The claims about the finder\<close>

text \<open>
  Claim C1, as amended. \<open>consider_edge_selection\<close> keeps one best candidate. A
  candidate whose clip against the search box is empty never replaces it. A candidate
  whose clip is not empty replaces it if and only if there is no best yet or the
  distance of the new clip from the location is strictly smaller than that of the clip
  of the best. So \<open>find_selection\<close> returns nothing when no candidate has a clip, and
  otherwise finishes the first of the nearest candidates in the order of registration
  (instances, then shapes, then rulers): every candidate with a clip registered before
  it is strictly farther, none registered after it is nearer.
\<close>

theorem first_nearest_candidate_wins:
  "(edge c = Some e \<and> (edge n = None \<or> valid_candidate L sbox n) \<longrightarrow>
      consider_edge_selection L sbox loc n c =
        Inr (if clipped L e sbox \<noteq> None \<and>
                (edge n = None \<or> clip_distance L sbox loc c < clip_distance L sbox loc n)
             then c else n)) \<and>
   (\<not> top_cell_hidden view \<longrightarrow>
      (filter (valid_candidate L (make_search_box loc max_distance))
         (all_candidates L view loc max_distance consider_rulers) = [] \<and>
       find_selection L view loc max_distance consider_rulers = Inr None) \<or>
      (\<exists>pre r post.
         filter (valid_candidate L (make_search_box loc max_distance))
           (all_candidates L view loc max_distance consider_rulers) = pre @ r # post \<and>
         (\<forall>x\<in>set pre. clip_distance L (make_search_box loc max_distance) loc r <
                        clip_distance L (make_search_box loc max_distance) loc x) \<and>
         (\<forall>x\<in>set post. clip_distance L (make_search_box loc max_distance) loc r \<le>
                         clip_distance L (make_search_box loc max_distance) loc x) \<and>
         find_selection L view loc max_distance consider_rulers =
           finish_selection (make_search_box loc max_distance) loc r))"
proof -
  let ?sbox = "make_search_box loc max_distance"
  let ?vs = "filter (valid_candidate L ?sbox) (all_candidates L view loc max_distance consider_rulers)"
  let ?d = "clip_distance L ?sbox loc"
  have step: "consider_edge_selection L sbox loc n c =
        Inr (if clipped L e sbox \<noteq> None \<and>
                (edge n = None \<or> clip_distance L sbox loc c < clip_distance L sbox loc n)
             then c else n)"
    if "edge c = Some e" "edge n = None \<or> valid_candidate L sbox n"
    using register_step [OF that, of loc] that(1)
    by (simp add: register_def valid_candidate_def)
  have order: "(?vs = [] \<and> find_selection L view loc max_distance consider_rulers = Inr None) \<or>
      (\<exists>pre r post. ?vs = pre @ r # post \<and> (\<forall>x\<in>set pre. ?d r < ?d x) \<and>
         (\<forall>x\<in>set post. ?d r \<le> ?d x) \<and>
         find_selection L view loc max_distance consider_rulers = finish_selection ?sbox loc r)"
    if nh: "\<not> top_cell_hidden view"
  proof (cases ?vs)
    case Nil
    then show ?thesis using nh by (simp add: find_selection_best)
  next
    case (Cons c0 rest)
    from best_from_first_least [of c0 rest ?d] obtain pre post
      where d: "c0 # rest = pre @ best_from ?d c0 rest # post"
        "\<forall>x\<in>set pre. ?d (best_from ?d c0 rest) < ?d x"
        "\<forall>x\<in>set post. ?d (best_from ?d c0 rest) \<le> ?d x"
      by blast
    have "find_selection L view loc max_distance consider_rulers =
            finish_selection ?sbox loc (best_from ?d c0 rest)"
      using nh Cons by (simp add: find_selection_best)
    with d Cons show ?thesis by metis
  qed
  show ?thesis using step order by blast
qed

text \<open>
  The amended claim C1 at two instances with equal clip distance 5: the edge of the
  instance registered first stays the best and is returned.
\<close>

theorem first_nearest_candidate_wins_witness:
  "clip_distance ref_ops (MkBox (- 10) (- 10) 10 10) (Point 0 0)
     (instance_edge_feature (Point 0 0) (MkBox (- 10) (- 10) 10 10) (Instance 2)
          (MkBox 5 (- 50) 100 50) (Edge (Point 5 (- 50)) (Point 5 50)) None) = 5 \<and>
   clip_distance ref_ops (MkBox (- 10) (- 10) 10 10) (Point 0 0)
     (instance_edge_feature (Point 0 0) (MkBox (- 10) (- 10) 10 10) (Instance 3)
          (MkBox (- 100) (- 50) (- 5) 50) (Edge (Point (- 5) 50) (Point (- 5) (- 50))) None) = 5 \<and>
   consider_edge_selection ref_ops (MkBox (- 10) (- 10) 10 10) (Point 0 0)
     (instance_edge_feature (Point 0 0) (MkBox (- 10) (- 10) 10 10) (Instance 2)
          (MkBox 5 (- 50) 100 50) (Edge (Point 5 (- 50)) (Point 5 50)) None)
     (instance_edge_feature (Point 0 0) (MkBox (- 10) (- 10) 10 10) (Instance 3)
          (MkBox (- 100) (- 50) (- 5) 50) (Edge (Point (- 5) 50) (Point (- 5) (- 50))) None) =
   Inr (instance_edge_feature (Point 0 0) (MkBox (- 10) (- 10) 10 10) (Instance 2)
          (MkBox 5 (- 50) 100 50) (Edge (Point 5 (- 50)) (Point 5 50)) None) \<and>
   find_selection ref_ops
     (example_view [example_instance (Instance 2) False (MkBox 5 (- 50) 100 50),
                    example_instance (Instance 3) False (MkBox (- 100) (- 50) (- 5) 50)] [] [])
     (Point 0 0) 10 False =
   Inr (Some (instance_edge_feature (Point 0 0) (MkBox (- 10) (- 10) 10 10) (Instance 2)
          (MkBox 5 (- 50) 100 50) (Edge (Point 5 (- 50)) (Point 5 50)) (Some (Point 5 0))))"
proof -
  let ?sbox = "MkBox (- 10) (- 10) 10 10"
  let ?a = "instance_edge_feature (Point 0 0) ?sbox (Instance 2)
          (MkBox 5 (- 50) 100 50) (Edge (Point 5 (- 50)) (Point 5 50)) None"
  let ?b = "instance_edge_feature (Point 0 0) ?sbox (Instance 3)
          (MkBox (- 100) (- 50) (- 5) 50) (Edge (Point (- 5) 50) (Point (- 5) (- 50))) None"
  let ?view = "example_view [example_instance (Instance 2) False (MkBox 5 (- 50) 100 50),
                    example_instance (Instance 3) False (MkBox (- 100) (- 50) (- 5) 50)] [] []"
  note rule = first_nearest_candidate_wins [of ?b "Edge (Point (- 5) 50) (Point (- 5) (- 50))" ?a
      ref_ops ?sbox "Point 0 0" ?view 10 False]
  have eb: "edge ?b = Some (Edge (Point (- 5) 50) (Point (- 5) (- 50)))"
    by (simp add: instance_edge_feature_def)
  have va: "edge ?a = None \<or> valid_candidate ref_ops ?sbox ?a"
    by (simp add: tie_distances)
  have "consider_edge_selection ref_ops ?sbox (Point 0 0) ?a ?b =
          Inr (if clipped ref_ops (Edge (Point (- 5) 50) (Point (- 5) (- 50))) ?sbox \<noteq> None \<and>
                  (edge ?a = None \<or>
                   clip_distance ref_ops ?sbox (Point 0 0) ?b < clip_distance ref_ops ?sbox (Point 0 0) ?a)
               then ?b else ?a)"
    using rule eb va by blast
  moreover have "edge ?a \<noteq> None"
    by (simp add: instance_edge_feature_def)
  ultimately have step: "consider_edge_selection ref_ops ?sbox (Point 0 0) ?a ?b = Inr ?a"
    by (simp add: tie_distances)
  show ?thesis
    using step by (simp only: tie_distances tie_find_selection simp_thms)
qed

text \<open>
  Claim C1 as stated fails: the instance box from (-20,-20) to (1000,1000) contains the
  search box around (0,0), so none of its edges is registered; its centre (490,490)
  is registered while there is no best yet, and does not become the best, because
  its clip is empty. The query returns nothing.
\<close>

theorem empty_clip_candidate_not_installed:
  "all_candidates ref_ops
     (example_view [example_instance (Instance 2) False (MkBox (- 20) (- 20) 1000 1000)] [] [])
     (Point 0 0) 10 False =
     [instance_edge_feature (Point 0 0) (MkBox (- 10) (- 10) 10 10) (Instance 2)
        (MkBox (- 20) (- 20) 1000 1000) (Edge (Point 490 490) (Point 490 490))
        (Some (Point 490 490))] \<and>
   edge (no_selection (Point 0 0) (MkBox (- 10) (- 10) 10 10)) = None \<and>
   consider_edge_selection ref_ops (MkBox (- 10) (- 10) 10 10) (Point 0 0)
     (no_selection (Point 0 0) (MkBox (- 10) (- 10) 10 10))
     (instance_edge_feature (Point 0 0) (MkBox (- 10) (- 10) 10 10) (Instance 2)
        (MkBox (- 20) (- 20) 1000 1000) (Edge (Point 490 490) (Point 490 490))
        (Some (Point 490 490))) =
     Inr (no_selection (Point 0 0) (MkBox (- 10) (- 10) 10 10)) \<and>
   find_selection ref_ops
     (example_view [example_instance (Instance 2) False (MkBox (- 20) (- 20) 1000 1000)] [] [])
     (Point 0 0) 10 False = Inr None"
proof -
  have c: "consider_edge_selection ref_ops (MkBox (- 10) (- 10) 10 10) (Point 0 0)
     (no_selection (Point 0 0) (MkBox (- 10) (- 10) 10 10))
     (instance_edge_feature (Point 0 0) (MkBox (- 10) (- 10) 10 10) (Instance 2)
        (MkBox (- 20) (- 20) 1000 1000) (Edge (Point 490 490) (Point 490 490))
        (Some (Point 490 490))) =
     Inr (no_selection (Point 0 0) (MkBox (- 10) (- 10) 10 10))"
    by code_simp
  have f: "find_selection ref_ops
     (example_view [example_instance (Instance 2) False (MkBox (- 20) (- 20) 1000 1000)] [] [])
     (Point 0 0) 10 False = Inr None"
    unfolding find_selection_register empty_clip_scan(2)
    by (simp add: finish_no_selection)
  show ?thesis
    using c f by (simp add: empty_clip_scan(1) no_selection_def)
qed

text \<open>
  Claim C2. With an \<open>Edge.clipped\<close> that keeps a point only inside the box, every
  feature \<open>find_selection\<close> returns has its snap point, if any, inside its search
  box; the snap point is the nearest point of its edge when that lies in the search
  box, and is \<open>None\<close> when it does not.
\<close>

theorem snap_point_in_search_box:
  assumes "clips_points_inside L"
    and "find_selection L view loc max_distance consider_rulers = Inr (Some f)"
  shows "(\<forall>q. snap_point f = Some q \<longrightarrow> contains (search_box f) q) \<and>
         (\<exists>e np. edge f = Some e \<and> find_nearest_edge_point (location f) e = Some np \<and>
                  snap_point f = (if contains (search_box f) np then Some np else None))"
proof -
  let ?sbox = "make_search_box loc max_distance"
  from find_selection_winner [OF assms(2)] obtain r
    where r: "r \<in> set (all_candidates L view loc max_distance consider_rulers)"
      "valid_candidate L ?sbox r" "finish_selection ?sbox loc r = Inr (Some f)"
    by blast
  from finish_selection_Some [OF r(3)] obtain e np
    where f: "edge r = Some e" "find_nearest_edge_point loc e = Some np"
      "f = (if contains ?sbox np then r\<lparr>snap_point := Some np\<rparr> else r)"
    by blast
  have wf: "search_box r = ?sbox" "location r = loc"
      "\<forall>m. snap_point r = Some m \<longrightarrow> edge r = Some (Edge m m)"
    using all_candidates_wf [OF r(1)] by simp_all
  have clip: "clipped L e ?sbox \<noteq> None"
    using r(2) f(1) by (simp add: valid_candidate_def)
  have pt: "contains ?sbox m \<and> np = m" if "snap_point r = Some m" for m
  proof -
    from that wf(3) f(1) have e: "e = Edge m m" by simp
    from clip assms(1) have "contains ?sbox m"
      unfolding e clips_points_inside_def by blast
    moreover have "np = m"
      using f(2) unfolding e by (rule find_nearest_edge_point_degenerate)
    ultimately show ?thesis by simp
  qed
  show ?thesis
  proof (cases "contains ?sbox np")
    case True
    then show ?thesis using f wf by simp
  next
    case False
    have "snap_point r = None"
    proof (cases "snap_point r")
      case None then show ?thesis .
    next
      case (Some m)
      with pt [OF Some] False show ?thesis by simp
    qed
    then show ?thesis using False f wf by simp
  qed
qed

text \<open>
  Claim C2 at the two edges of the lone instance: the middle (5,0) of the short edge is
  in the search box and is the snap point; the middle (5,20) of the long edge is the
  nearest point, lies outside, and the feature has no snap point.
\<close>

theorem snap_point_in_search_box_witness:
  "clips_points_inside ref_ops \<and>
   find_selection ref_ops
     (example_view [example_instance (Instance 3) False (MkBox 5 (- 50) 100 50)] [] [])
     (Point 0 0) 10 False =
   Inr (Some (instance_edge_feature (Point 0 0) (MkBox (- 10) (- 10) 10 10) (Instance 3)
          (MkBox 5 (- 50) 100 50) (Edge (Point 5 (- 50)) (Point 5 50)) (Some (Point 5 0)))) \<and>
   contains (MkBox (- 10) (- 10) 10 10) (Point 5 0) \<and>
   find_selection ref_ops
     (example_view [example_instance (Instance 3) False (MkBox 5 (- 50) 100 90)] [] [])
     (Point 0 0) 10 False =
   Inr (Some (instance_edge_feature (Point 0 0) (MkBox (- 10) (- 10) 10 10) (Instance 3)
          (MkBox 5 (- 50) 100 90) (Edge (Point 5 (- 50)) (Point 5 90)) None)) \<and>
   find_nearest_edge_point (Point 0 0) (Edge (Point 5 (- 50)) (Point 5 90)) = Some (Point 5 20) \<and>
   \<not> contains (MkBox (- 10) (- 10) 10 10) (Point 5 20)"
proof -
  have "contains (MkBox (- 10) (- 10) 10 10) (Point 5 0)"
    using snap_point_in_search_box [OF ref_ops_clips_points_inside lone_instance_found]
    by (simp add: instance_edge_feature_def)
  moreover have "\<not> contains (MkBox (- 10) (- 10) 10 10) (Point 5 20)"
    using snap_point_in_search_box [OF ref_ops_clips_points_inside long_edge_found]
    by (simp add: instance_edge_feature_def nearest_on_long_edge split: if_splits)
  ultimately show ?thesis
    using ref_ops_clips_points_inside lone_instance_found long_edge_found nearest_on_long_edge
    by simp
qed





text \<open>
  Claim C9 fails on the code at the centre of a polygon: for the square shape on the
  visible layer 7, \<open>find_selection\<close> returns the feature of the centre of the shape,
  and its \<open>layer\<close> is \<open>None\<close>.
\<close>

theorem polygon_midpoint_has_no_layer:
  "visible_layer_indexes
     (example_view [] [example_square (Shape 1) (MkBox (- 100) (- 100) 100 100)] []) = [7] \<and>
   find_selection ref_ops
     (example_view [] [example_square (Shape 1) (MkBox (- 100) (- 100) 100 100)] [])
     (Point 0 0) 10 False =
   Inr (Some \<lparr>location = Point 0 0, search_box = MkBox (- 10) (- 10) 10 10,
              edge = Some (Edge (Point 0 0) (Point 0 0)), path = [],
              shape = Some (ShapeObj (Shape 1)), bbox_of_instance = None, layer = None,
              snap_point = Some (Point 0 0)\<rparr>)"
proof -
  have v: "visible_layer_indexes
     (example_view [] [example_square (Shape 1) (MkBox (- 100) (- 100) 100 100)] []) = [7]"
    by code_simp
  have t: "\<not> top_cell_hidden (example_view [] [example_square (Shape 1) (MkBox (- 100) (- 100) 100 100)] [])"
    by (simp add: example_view_def)
  have b: "make_search_box (Point 0 0) 10 = MkBox (- 10) (- 10) 10 10"
    by (simp add: make_search_box_def Box_def)
  show ?thesis
    unfolding find_selection_register square_scan
    using v t b by (simp add: finish_selection_def nearest_at_origin contains_def)
qed

text \<open>
  Claim C10. A call of \<open>consider_edge_selection\<close> that returns keeps the property
  that the best candidate, if there is one, has an edge with a clip against the
  search box, and changes the best only to the candidate it was given, whose clip it
  has checked. So every feature \<open>find_selection\<close> returns has an edge whose clip
  against the search box of the feature is not \<open>None\<close>.
\<close>

theorem returned_feature_clips:
  "((edge n = None \<or> valid_candidate L sbox n) \<and>
      consider_edge_selection L sbox loc n c = Inr n' \<longrightarrow>
        (edge n' = None \<or> valid_candidate L sbox n') \<and>
        (n' = n \<or> (n' = c \<and> valid_candidate L sbox c))) \<and>
   (find_selection L view loc max_distance consider_rulers = Inr (Some f) \<longrightarrow>
      (\<exists>e. edge f = Some e \<and> clipped L e (search_box f) \<noteq> None))"
proof -
  have step: "(edge n' = None \<or> valid_candidate L sbox n') \<and>
        (n' = n \<or> (n' = c \<and> valid_candidate L sbox c))"
    if "edge n = None \<or> valid_candidate L sbox n"
      and "consider_edge_selection L sbox loc n c = Inr n'"
  proof -
    from that(2) obtain e where e: "edge c = Some e"
      by (auto simp: consider_edge_selection_def split: option.splits)
    show ?thesis
      using register_step [OF e that(1), of loc] that(2) that(1)
      by (auto simp: register_def split: if_splits)
  qed
  have res: "\<exists>e. edge f = Some e \<and> clipped L e (search_box f) \<noteq> None"
    if "find_selection L view loc max_distance consider_rulers = Inr (Some f)"
  proof -
    from find_selection_winner [OF that] obtain r
      where r: "r \<in> set (all_candidates L view loc max_distance consider_rulers)"
        "valid_candidate L (make_search_box loc max_distance) r"
        "finish_selection (make_search_box loc max_distance) loc r = Inr (Some f)"
      by blast
    from finish_selection_Some [OF r(3)] obtain e np
      where f: "edge r = Some e"
        "f = (if contains (make_search_box loc max_distance) np then r\<lparr>snap_point := Some np\<rparr> else r)"
      by blast
    have sb: "search_box r = make_search_box loc max_distance"
      using all_candidates_wf [OF r(1)] by simp
    show ?thesis
      using r(2) f sb by (auto simp: valid_candidate_def)
  qed
  show ?thesis using step res by blast
qed

text \<open>
  Claim C10 at the lone instance: the returned edge from (5,-50) to (5,50) has a clip
  against the search box.
\<close>

theorem returned_feature_clips_witness:
  "find_selection ref_ops
     (example_view [example_instance (Instance 3) False (MkBox 5 (- 50) 100 50)] [] [])
     (Point 0 0) 10 False =
   Inr (Some (instance_edge_feature (Point 0 0) (MkBox (- 10) (- 10) 10 10) (Instance 3)
          (MkBox 5 (- 50) 100 50) (Edge (Point 5 (- 50)) (Point 5 50)) (Some (Point 5 0)))) \<and>
   clipped ref_ops (Edge (Point 5 (- 50)) (Point 5 50)) (MkBox (- 10) (- 10) 10 10) \<noteq> None"
  using returned_feature_clips [of "no_selection (Point 0 0) (MkBox (- 10) (- 10) 10 10)" ref_ops
      "MkBox (- 10) (- 10) 10 10" "Point 0 0"
      "instance_edge_feature (Point 0 0) (MkBox (- 10) (- 10) 10 10) (Instance 3)
          (MkBox 5 (- 50) 100 50) (Edge (Point 5 (- 50)) (Point 5 50)) None"
      "instance_edge_feature (Point 0 0) (MkBox (- 10) (- 10) 10 10) (Instance 3)
          (MkBox 5 (- 50) 100 50) (Edge (Point 5 (- 50)) (Point 5 50)) None"
      "example_view [example_instance (Instance 3) False (MkBox 5 (- 50) 100 50)] [] []"
      10 False
      "instance_edge_feature (Point 0 0) (MkBox (- 10) (- 10) 10 10) (Instance 3)
          (MkBox 5 (- 50) 100 50) (Edge (Point 5 (- 50)) (Point 5 50)) (Some (Point 5 0))"]
    lone_instance_found
  by (simp add: instance_edge_feature_def)

end
